theory Spec2Isabelle
  imports Main
begin

section \<open>Strings\<close>

text \<open>
  A Python string is the list of its code points. The program's own string literals are
  ASCII; \<open>lit\<close> turns an Isabelle string literal into the Python string it denotes.
  Dictionary keys and class names, which the program writes as literals only, stay
  Isabelle strings.
\<close>

type_synonym pystr = "nat list"

primrec lit :: "string \<Rightarrow> pystr" where
  "lit [] = []"
| "lit (c # cs) = of_char c # lit cs"

text \<open>\<^verbatim>\<open>s.startswith(p)\<close>, handing back what follows the prefix.\<close>

fun strip_prefix :: "'a list \<Rightarrow> 'a list \<Rightarrow> 'a list option" where
  "strip_prefix [] s = Some s"
| "strip_prefix (c # cs) [] = None"
| "strip_prefix (c # cs) (x # xs) = (if x = c then strip_prefix cs xs else None)"

text \<open>\<^verbatim>\<open>sub in s\<close> on strings.\<close>

fun contains :: "'a list \<Rightarrow> 'a list \<Rightarrow> bool" where
  "contains sub [] = (sub = [])"
| "contains sub (x # xs) = (strip_prefix sub (x # xs) \<noteq> None \<or> contains sub xs)"

text \<open>\<^verbatim>\<open>s.rstrip(c)\<close> for a single character \<open>c\<close>.\<close>

definition rstrip :: "'a \<Rightarrow> 'a list \<Rightarrow> 'a list" where
  "rstrip c s = rev (dropWhile (\<lambda>x. x = c) (rev s))"

text \<open>\<^verbatim>\<open>s.split(c)\<close> for a single character \<open>c\<close>; the result is never empty.\<close>

fun split_on :: "'a \<Rightarrow> 'a list \<Rightarrow> 'a list list" where
  "split_on c [] = [[]]"
| "split_on c (x # xs) =
     (if x = c then [] # split_on c xs
      else (case split_on c xs of [] \<Rightarrow> [[x]] | w # ws \<Rightarrow> (x # w) # ws))"

text \<open>
  \<^verbatim>\<open>str\<close> of an \<^verbatim>\<open>int\<close>, which is how an f-string renders it: the decimal digits, most
  significant first, after a minus sign for a negative number.
\<close>

fun decimal :: "nat \<Rightarrow> pystr" where
  "decimal n = (if 10 \<le> n then decimal (n div 10) @ [48 + n mod 10] else [48 + n])"

declare decimal.simps [simp del]

definition str_int :: "int \<Rightarrow> pystr" where
  "str_int i = (if 0 \<le> i then decimal (nat i) else lit ''-'' @ decimal (nat (- i)))"

section \<open>Regular expressions\<close>

text \<open>
  The classes \<^verbatim>\<open>\d\<close> and \<^verbatim>\<open>\w\<close> of a string pattern are Unicode classes: \<^verbatim>\<open>\d\<close> is the
  decimal digits of every script, \<^verbatim>\<open>\w\<close> the alphanumeric characters and the underscore.
  On ASCII they are the digits 0-9, and the letters, the digits and the underscore. Beyond
  ASCII they are read from the Unicode tables of the Python runtime, which vary with its
  version and are a parameter here.
\<close>

record unicode =
  is_decimal :: "nat \<Rightarrow> bool"
  is_alnum :: "nat \<Rightarrow> bool"

definition is_digit :: "unicode \<Rightarrow> nat \<Rightarrow> bool" where
  "is_digit U c = (48 \<le> c \<and> c \<le> 57 \<or> 128 \<le> c \<and> is_decimal U c)"

definition is_word :: "unicode \<Rightarrow> nat \<Rightarrow> bool" where
  "is_word U c =
     (48 \<le> c \<and> c \<le> 57 \<or> 65 \<le> c \<and> c \<le> 90 \<or> 97 \<le> c \<and> c \<le> 122 \<or> c = 95
      \<or> 128 \<le> c \<and> is_alnum U c)"

text \<open>
  The fragment of regular expressions that the two patterns of \<^verbatim>\<open>validate_linkedin_url\<close>
  use: runs of literal characters, an optional group, a character class repeated one or
  more times, and concatenation.
\<close>

datatype cls = Digit | WordOrHyphen

fun in_class :: "unicode \<Rightarrow> cls \<Rightarrow> nat \<Rightarrow> bool" where
  "in_class U Digit c = is_digit U c"
| "in_class U WordOrHyphen c = (is_word U c \<or> c = 45)"

datatype regex = Chars string | Opt regex | Plus cls | Cat regex regex

text \<open>
  \<open>plus_rest U k s\<close> lists what is left of \<open>s\<close> after one or more leading characters of
  class \<open>k\<close>, the longest run first (the quantifier is greedy).
\<close>

fun plus_rest :: "unicode \<Rightarrow> cls \<Rightarrow> pystr \<Rightarrow> pystr list" where
  "plus_rest U k [] = []"
| "plus_rest U k (x # xs) = (if in_class U k x then plus_rest U k xs @ [xs] else [])"

text \<open>
  \<open>rmatch U r s\<close> lists the remainders of \<open>s\<close> after each way of matching \<open>r\<close> at the
  start of \<open>s\<close>, in the order a backtracking matcher tries them. \<^verbatim>\<open>re.match\<close> anchors at
  the start of the string only, so it finds a match exactly when this list is not empty.
\<close>

fun rmatch :: "unicode \<Rightarrow> regex \<Rightarrow> pystr \<Rightarrow> pystr list" where
  "rmatch U (Chars l) s = (case strip_prefix (lit l) s of None \<Rightarrow> [] | Some t \<Rightarrow> [t])"
| "rmatch U (Opt r) s = rmatch U r s @ [s]"
| "rmatch U (Plus k) s = plus_rest U k s"
| "rmatch U (Cat a b) s = concat (map (rmatch U b) (rmatch U a s))"

definition re_match :: "unicode \<Rightarrow> regex \<Rightarrow> pystr \<Rightarrow> bool" where
  "re_match U r s = (rmatch U r s \<noteq> [])"

text \<open>
  The strings a regular expression matches as a whole. \<open>rmatch\<close> is the program's matcher;
  \<open>lang\<close> says what it has to compute, and \<open>rmatch_iff\<close> below relates the two.
\<close>

fun lang :: "unicode \<Rightarrow> regex \<Rightarrow> pystr set" where
  "lang U (Chars l) = {lit l}"
| "lang U (Opt r) = insert [] (lang U r)"
| "lang U (Plus k) = {w. w \<noteq> [] \<and> (\<forall>c \<in> set w. in_class U k c)}"
| "lang U (Cat a b) = {u @ v | u v. u \<in> lang U a \<and> v \<in> lang U b}"

section \<open>URL validation\<close>

text \<open>\<^verbatim>\<open>https?://(www\.)?linkedin\.com/jobs/view/\d+\<close>\<close>

definition job_pattern :: regex where
  "job_pattern =
     Cat (Chars ''http'') (Cat (Opt (Chars ''s'')) (Cat (Chars ''://'')
       (Cat (Opt (Chars ''www.'')) (Cat (Chars ''linkedin.com/jobs/view/'') (Plus Digit)))))"

text \<open>\<^verbatim>\<open>https?://(www\.)?linkedin\.com/in/[\w\-]+\<close>\<close>

definition profile_pattern :: regex where
  "profile_pattern =
     Cat (Chars ''http'') (Cat (Opt (Chars ''s'')) (Cat (Chars ''://'')
       (Cat (Opt (Chars ''www.'')) (Cat (Chars ''linkedin.com/in/'') (Plus WordOrHyphen)))))"

definition validate_linkedin_url :: "unicode \<Rightarrow> pystr \<Rightarrow> string \<Rightarrow> bool" where
  "validate_linkedin_url U url type =
     (if url = [] then False
      else re_match U (if type = ''job'' then job_pattern else profile_pattern) url)"

section \<open>Exceptions\<close>

text \<open>
  A raised exception is its class name and the text \<^verbatim>\<open>str(e)\<close> gives. Only exceptions
  that \<^verbatim>\<open>except Exception\<close> catches are modelled. A result of type \<open>py_error + 'a\<close> is
  either the exception raised (\<open>Inl\<close>) or the value returned (\<open>Inr\<close>).
\<close>

datatype py_error = PyError (err_class: string) (err_str: pystr)

text \<open>\<^verbatim>\<open>str(KeyError(k))\<close> is the \<^verbatim>\<open>repr\<close> of the key: the key between single quotes.\<close>

definition KeyError :: "string \<Rightarrow> py_error" where
  "KeyError k = PyError ''KeyError'' ([39] @ lit k @ [39])"

definition ValueError :: "pystr \<Rightarrow> py_error" where
  "ValueError m = PyError ''ValueError'' m"

definition Exception :: "pystr \<Rightarrow> py_error" where
  "Exception m = PyError ''Exception'' m"

text \<open>\<^verbatim>\<open>d[key]\<close> on a dictionary in which the key may be absent.\<close>

definition subscript :: "string \<Rightarrow> 'a option \<Rightarrow> py_error + 'a" where
  "subscript key field = (case field of None \<Rightarrow> Inl (KeyError key) | Some v \<Rightarrow> Inr v)"

text \<open>\<^verbatim>\<open>d.get(key, default)\<close>\<close>

definition get_default :: "'a option \<Rightarrow> 'a \<Rightarrow> 'a" where
  "get_default field d = (case field of None \<Rightarrow> d | Some v \<Rightarrow> v)"

text \<open>A list comprehension whose element expression may raise: the first exception ends it.\<close>

fun traverse :: "('a \<Rightarrow> py_error + 'b) \<Rightarrow> 'a list \<Rightarrow> py_error + 'b list" where
  "traverse f [] = Inr []"
| "traverse f (x # xs) =
     (case f x of
        Inl e \<Rightarrow> Inl e
      | Inr y \<Rightarrow> (case traverse f xs of Inl e \<Rightarrow> Inl e | Inr ys \<Rightarrow> Inr (y # ys)))"

section \<open>Data model\<close>

text \<open>
  What the program hands to the persona's constructor as education and as experience: the
  scraping path hands over a list of strings, the manual branch one string. Python does
  not type the argument, so the model keeps the two shapes apart.
\<close>

datatype text_field = Str pystr | StrList "pystr list"

text \<open>
  The raw profile as the profile API returns it: dictionaries whose values have the types
  the API gives them and in which any key may be absent (\<open>None\<close>).
\<close>

datatype start_date = StartDate (year: "int option")

datatype time_period = TimePeriod (startDate: "start_date option")

record education_entry =
  edu_schoolName :: "pystr option"
  edu_timePeriod :: "time_period option"
  edu_description :: "pystr option"

record experience_entry =
  exp_title :: "pystr option"
  exp_companyName :: "pystr option"
  exp_description :: "pystr option"

record certification_entry =
  cert_name :: "pystr option"
  cert_authority :: "pystr option"

record skill_entry =
  skill_name :: "pystr option"

record raw_profile =
  firstName :: "pystr option"
  lastName :: "pystr option"
  profile_education :: "education_entry list option"
  profile_experience :: "experience_entry list option"
  profile_certifications :: "certification_entry list option"

text \<open>The generation result: a dictionary with the letter under the key \<^verbatim>\<open>text\<close>.\<close>

type_synonym response = "string \<rightharpoonup> pystr"

text \<open>\<^verbatim>\<open>st.session_state\<close>, after its initialisation at lines 153-156.\<close>

record session_state =
  cover_letter :: "response option"
  editor_active :: bool

text \<open>
  The external collaborators, none of which is among the sources. \<open>Linkedin\<close> is the
  client's constructor (it logs in). \<open>UserPersona\<close> is the constructor of the persona
  class of \<^verbatim>\<open>src/cover_letter\<close>, called with name, education, experience, skills and
  certifications; what it makes of them is not known, so a persona is a value of the
  type \<open>'persona\<close>. \<open>create_editing_interface\<close> is the text the editing widget hands back
  for the text it was given. \<open>'api\<close> is the client object and \<open>'job\<close> the scraped job
  posting.
\<close>

record ('api, 'job, 'persona) capabilities =
  Linkedin :: "pystr \<Rightarrow> pystr \<Rightarrow> py_error + 'api"
  get_profile :: "'api \<Rightarrow> pystr \<Rightarrow> py_error + raw_profile"
  get_profile_skills :: "'api \<Rightarrow> pystr \<Rightarrow> py_error + skill_entry list"
  UserPersona ::
    "pystr \<Rightarrow> text_field \<Rightarrow> text_field \<Rightarrow> pystr list \<Rightarrow> pystr list \<Rightarrow> py_error + 'persona"
  scrape_job_posting :: "pystr \<Rightarrow> py_error + 'job"
  query :: "'persona \<Rightarrow> 'job \<Rightarrow> pystr \<Rightarrow> py_error + response"
  create_editing_interface :: "pystr \<Rightarrow> pystr"

text \<open>What a run does to the outside, in order: calls of the collaborators and output.\<close>

datatype ('job, 'persona) event =
    Login pystr pystr
  | GetProfile pystr
  | GetProfileSkills pystr
  | NewPersona pystr text_field text_field "pystr list" "pystr list"
  | ScrapeJobPosting pystr
  | Query 'persona 'job pystr
  | StError pystr
  | StInfo pystr
  | SuccessMessage
  | UpdatedMessage
  | ShowLetter pystr
  | DownloadButton pystr
  | Sleep
  | Rerun

text \<open>
  The secrets file and the environment of the process, as they are when the script
  starts. A secrets file that is missing or cannot be read is the empty map.
\<close>

type_synonym secrets = "string \<rightharpoonup> pystr"

type_synonym environ = "string \<rightharpoonup> pystr"

section \<open>Scraping a profile\<close>

text \<open>
  Lines 68-77 of \<^verbatim>\<open>scrape_profile\<close>. Both keys are read from \<^verbatim>\<open>st.secrets\<close> first. Reading
  \<^verbatim>\<open>st.secrets\<close> loads the secrets file, and loading it copies each of its top-level
  entries into the environment of the process, over a variable of the same name. So when
  a read of the secrets raises and both values are taken with \<^verbatim>\<open>os.getenv\<close> instead, they
  are taken from the environment overlaid with the secrets. Only on this second path an
  absent or empty value raises the \<^verbatim>\<open>ValueError\<close>.
\<close>

definition resolve_credentials :: "secrets \<Rightarrow> environ \<Rightarrow> py_error + pystr \<times> pystr" where
  "resolve_credentials secrets env =
     (case (secrets ''LINKEDIN_EMAIL'', secrets ''LINKEDIN_PASSWORD'') of
        (Some email, Some pwd) \<Rightarrow> Inr (email, pwd)
      | _ \<Rightarrow>
          (case ((env ++ secrets) ''LINKEDIN_EMAIL'', (env ++ secrets) ''LINKEDIN_PASSWORD'') of
             (Some email, Some pwd) \<Rightarrow>
               if email = [] \<or> pwd = []
               then Inl (ValueError (lit
                 ''LinkedIn credentials not found in secrets or environment variables''))
               else Inr (email, pwd)
           | _ \<Rightarrow> Inl (ValueError (lit
                 ''LinkedIn credentials not found in secrets or environment variables''))))"

text \<open>The element expressions of the three list comprehensions, lines 83-94.\<close>

definition format_education :: "education_entry \<Rightarrow> py_error + pystr" where
  "format_education edu =
     (case subscript ''schoolName'' (edu_schoolName edu) of
        Inl e \<Rightarrow> Inl e
      | Inr school \<Rightarrow>
     (case subscript ''timePeriod'' (edu_timePeriod edu) of
        Inl e \<Rightarrow> Inl e
      | Inr period \<Rightarrow>
     (case subscript ''startDate'' (startDate period) of
        Inl e \<Rightarrow> Inl e
      | Inr start \<Rightarrow>
     (case subscript ''year'' (year start) of
        Inl e \<Rightarrow> Inl e
      | Inr y \<Rightarrow>
          Inr (school @ lit '' ('' @ str_int y @ lit '') - '' @
               get_default (edu_description edu) (lit ''No description available''))))))"

definition format_experience :: "experience_entry \<Rightarrow> py_error + pystr" where
  "format_experience exp =
     (case subscript ''title'' (exp_title exp) of
        Inl e \<Rightarrow> Inl e
      | Inr title \<Rightarrow>
     (case subscript ''companyName'' (exp_companyName exp) of
        Inl e \<Rightarrow> Inl e
      | Inr company \<Rightarrow>
          Inr (title @ lit '' at '' @ company @ lit '' - '' @
               get_default (exp_description exp) (lit ''No description available''))))"

definition format_certification :: "certification_entry \<Rightarrow> py_error + pystr" where
  "format_certification cert =
     (case subscript ''name'' (cert_name cert) of
        Inl e \<Rightarrow> Inl e
      | Inr n \<Rightarrow>
     (case subscript ''authority'' (cert_authority cert) of
        Inl e \<Rightarrow> Inl e
      | Inr authority \<Rightarrow> Inr (n @ lit '' from '' @ authority)))"

text \<open>
  Lines 82-94: the name and the three lists, computed in this order from the profile. The
  result is the tuple (name, education, experience, certifications).
\<close>

definition normalize_profile ::
  "raw_profile \<Rightarrow> py_error + pystr \<times> pystr list \<times> pystr list \<times> pystr list" where
  "normalize_profile profile =
     (case subscript ''firstName'' (firstName profile) of
        Inl e \<Rightarrow> Inl e
      | Inr first_name \<Rightarrow>
     (case subscript ''lastName'' (lastName profile) of
        Inl e \<Rightarrow> Inl e
      | Inr last_name \<Rightarrow>
     (case traverse format_education (get_default (profile_education profile) []) of
        Inl e \<Rightarrow> Inl e
      | Inr ed \<Rightarrow>
     (case traverse format_experience (get_default (profile_experience profile) []) of
        Inl e \<Rightarrow> Inl e
      | Inr ex \<Rightarrow>
     (case traverse format_certification
             (get_default (profile_certifications profile) []) of
        Inl e \<Rightarrow> Inl e
      | Inr ce \<Rightarrow> Inr (first_name @ lit '' '' @ last_name, ed, ex, ce))))))"

text \<open>
  The body of the second \<^verbatim>\<open>try\<close>, lines 80-97, with the calls it makes. The skills are
  fetched after the profile has been normalised, and the persona is constructed last, from
  the name, the two lists of strings, the skills and the certifications.
\<close>

definition fetch_profile ::
  "('api, 'job, 'persona) capabilities \<Rightarrow> pystr \<Rightarrow> pystr \<Rightarrow> pystr \<Rightarrow>
     ('job, 'persona) event list \<times> (py_error + 'persona)" where
  "fetch_profile caps email pwd profile_id =
     (case Linkedin caps email pwd of
        Inl e \<Rightarrow> ([Login email pwd], Inl e)
      | Inr api \<Rightarrow>
     (case get_profile caps api profile_id of
        Inl e \<Rightarrow> ([Login email pwd, GetProfile profile_id], Inl e)
      | Inr profile \<Rightarrow>
     (case normalize_profile profile of
        Inl e \<Rightarrow> ([Login email pwd, GetProfile profile_id], Inl e)
      | Inr (nm, ed, ex, ce) \<Rightarrow>
     (case get_profile_skills caps api profile_id of
        Inl e \<Rightarrow>
          ([Login email pwd, GetProfile profile_id, GetProfileSkills profile_id], Inl e)
      | Inr raw_skills \<Rightarrow>
     (case traverse (\<lambda>skill. subscript ''name'' (skill_name skill)) raw_skills of
        Inl e \<Rightarrow>
          ([Login email pwd, GetProfile profile_id, GetProfileSkills profile_id], Inl e)
      | Inr sk \<Rightarrow>
          ([Login email pwd, GetProfile profile_id, GetProfileSkills profile_id,
            NewPersona nm (StrList ed) (StrList ex) sk ce],
           UserPersona caps nm (StrList ed) (StrList ex) sk ce))))))"

definition scrape_profile ::
  "('api, 'job, 'persona) capabilities \<Rightarrow> secrets \<Rightarrow> environ \<Rightarrow> pystr \<Rightarrow>
     ('job, 'persona) event list \<times> (py_error + 'persona)" where
  "scrape_profile caps secrets env profile_id =
     (case resolve_credentials secrets env of
        Inl e \<Rightarrow> ([], Inl e)
      | Inr (email, pwd) \<Rightarrow>
          (case fetch_profile caps email pwd profile_id of
             (evs, Inl e) \<Rightarrow>
               (evs, Inl (Exception (lit ''Failed to scrape LinkedIn profile: '' @ err_str e)))
           | (evs, Inr user) \<Rightarrow> (evs, Inr user)))"

section \<open>The page\<close>

text \<open>
  The values of the input widgets of one run of the script. The variables \<^verbatim>\<open>name\<close>,
  \<^verbatim>\<open>experience\<close>, \<^verbatim>\<open>skills\<close> and \<^verbatim>\<open>certifications\<close> of \<^verbatim>\<open>main\<close> are the fields \<open>full_name\<close>,
  \<open>work_experience\<close>, \<open>selected_skills\<close> and \<open>selected_certifications\<close>.
\<close>

record widgets =
  job_url :: pystr
  profile_url :: pystr
  full_name :: pystr
  education_level :: pystr
  education_field :: pystr
  work_experience :: pystr
  selected_skills :: "pystr list"
  selected_certifications :: "pystr list"

text \<open>Lines 163-164: what the form shows under the job URL field.\<close>

definition job_url_feedback :: "unicode \<Rightarrow> pystr \<Rightarrow> ('job, 'persona) event list" where
  "job_url_feedback U url =
     (if url \<noteq> [] \<and> \<not> validate_linkedin_url U url ''job''
      then [StError (lit ''Please enter a valid LinkedIn job posting URL'')] else [])"

text \<open>How the first part of the handler ends: it returns, it raises, or it has a persona.\<close>

datatype 'a stage = Return | Raised py_error | Built 'a

text \<open>
  Line 293 tests \<^verbatim>\<open>tab1.active\<close>. \<^verbatim>\<open>tab1\<close> is one of the containers that \<^verbatim>\<open>st.tabs\<close> hands
  back at line 149, and nothing in the program gives it an attribute \<^verbatim>\<open>active\<close>. Asking
  such a container for a name it does not know yields a function (one that would raise
  if it were called), and a function is truthy. So the test succeeds in every run,
  whichever tab the user has open.
\<close>

definition tab1_active :: bool where
  "tab1_active = True"

text \<open>
  Lines 303-307, the manual branch: an empty name or experience is answered with a
  message and the handler returns; otherwise the persona is constructed, with the
  education synthesized as one string and the experience as typed.
\<close>

definition manual_input_persona ::
  "('api, 'job, 'persona) capabilities \<Rightarrow> widgets \<Rightarrow>
     ('job, 'persona) event list \<times> 'persona stage" where
  "manual_input_persona caps w =
     (if full_name w = [] \<or> work_experience w = []
      then ([StError (lit ''Please fill in all required fields'')], Return)
      else
        (let education = education_level w @ lit '' in '' @ education_field w in
         ([NewPersona (full_name w) (Str education) (Str (work_experience w))
             (selected_skills w) (selected_certifications w)],
          case UserPersona caps (full_name w) (Str education) (Str (work_experience w))
                 (selected_skills w) (selected_certifications w) of
            Inl e \<Rightarrow> Raised e
          | Inr user \<Rightarrow> Built user)))"

text \<open>Lines 293-307.\<close>

definition persona_stage ::
  "('api, 'job, 'persona) capabilities \<Rightarrow> secrets \<Rightarrow> environ \<Rightarrow> widgets \<Rightarrow>
     ('job, 'persona) event list \<times> 'persona stage" where
  "persona_stage caps secrets env w =
     (if tab1_active then
        if job_url w = [] then ([StError (lit ''Please enter a job posting URL'')], Return)
        else if profile_url w = []
        then ([StError (lit ''Please enter your LinkedIn profile URL'')], Return)
        else
          (case scrape_profile caps secrets env
                  (last (split_on 47 (rstrip 47 (profile_url w)))) of
             (evs, Inl e) \<Rightarrow> (evs, Raised e)
           | (evs, Inr user) \<Rightarrow> (evs, Built user))
      else manual_input_persona caps w)"

text \<open>Lines 337-340, the handler of the \<^verbatim>\<open>except\<close> clause.\<close>

definition on_exception :: "py_error \<Rightarrow> ('job, 'persona) event list" where
  "on_exception e =
     StError (lit ''An error occurred: '' @ err_str e) #
     (if contains (lit ''credentials not found'') (err_str e)
      then [StInfo (lit
        ''Please use the manual input method or run the app locally for LinkedIn integration.'')]
      else [])"

text \<open>
  Lines 289-340: what a click on the generate button does to the session state, and the
  events of the run.
\<close>

definition generate ::
  "('api, 'job, 'persona) capabilities \<Rightarrow> secrets \<Rightarrow> environ \<Rightarrow> widgets \<Rightarrow>
     session_state \<Rightarrow> session_state \<times> ('job, 'persona) event list" where
  "generate caps secrets env w st =
     (case persona_stage caps secrets env w of
        (evs, Return) \<Rightarrow> (st, evs)
      | (evs, Raised e) \<Rightarrow> (st, evs @ on_exception e)
      | (evs, Built user) \<Rightarrow>
     (case scrape_job_posting caps (job_url w) of
        Inl e \<Rightarrow> (st, evs @ [ScrapeJobPosting (job_url w)] @ on_exception e)
      | Inr job_posting \<Rightarrow>
     (case query caps user job_posting (lit ''src/prompts/cover_letter.txt'') of
        Inl e \<Rightarrow>
          (st, evs @ [ScrapeJobPosting (job_url w),
                      Query user job_posting (lit ''src/prompts/cover_letter.txt'')]
                   @ on_exception e)
      | Inr response \<Rightarrow>
          (st\<lparr>cover_letter := Some response, editor_active := True\<rparr>,
           evs @ [ScrapeJobPosting (job_url w),
                  Query user job_posting (lit ''src/prompts/cover_letter.txt''),
                  SuccessMessage]
               @ (case response ''text'' of
                    None \<Rightarrow> on_exception (KeyError ''text'')
                  | Some t \<Rightarrow> [ShowLetter t, DownloadButton t, Sleep, Rerun])))))"

text \<open>
  Lines 261-286, the editor tab, which exists when a cover letter is stored at the start of
  the run. Reading the key \<^verbatim>\<open>text\<close> is outside any \<^verbatim>\<open>try\<close>.
\<close>

definition editor_tab ::
  "('api, 'job, 'persona) capabilities \<Rightarrow> session_state \<Rightarrow>
     py_error + session_state \<times> ('job, 'persona) event list" where
  "editor_tab caps st =
     (case cover_letter st of
        None \<Rightarrow> Inr (st, [])
      | Some letter \<Rightarrow>
          (case letter ''text'' of
             None \<Rightarrow> Inl (KeyError ''text'')
           | Some t \<Rightarrow>
               (let edited_text = create_editing_interface caps t in
                if edited_text \<noteq> t
                then Inr (st\<lparr>cover_letter := Some (letter(''text'' \<mapsto> edited_text))\<rparr>,
                          [UpdatedMessage, ShowLetter edited_text, DownloadButton edited_text])
                else Inr (st, [ShowLetter edited_text, DownloadButton edited_text]))))"

text \<open>The events that put a generated letter on the page.\<close>

fun presents_letter :: "('job, 'persona) event \<Rightarrow> bool" where
  "presents_letter SuccessMessage = True"
| "presents_letter (ShowLetter t) = True"
| "presents_letter (DownloadButton t) = True"
| "presents_letter Rerun = True"
| "presents_letter ev = False"

section \<open>Sample inputs\<close>

text \<open>
  Concrete collaborators and inputs on which the properties below are exercised. The
  sample tables know the Arabic-Indic digits, the sample constructor keeps its arguments.
\<close>

definition demo_unicode :: unicode where
  "demo_unicode =
     \<lparr>is_decimal = (\<lambda>c. 1632 \<le> c \<and> c \<le> 1641),
      is_alnum = (\<lambda>c. 1568 \<le> c \<and> c \<le> 1641)\<rparr>"

datatype demo_persona =
  DemoPersona pystr text_field text_field "pystr list" "pystr list"

definition demo_profile :: raw_profile where
  "demo_profile =
     \<lparr>firstName = Some (lit ''Jane''), lastName = Some (lit ''Doe''),
      profile_education = Some
        [\<lparr>edu_schoolName = Some (lit ''MIT''),
          edu_timePeriod = Some (TimePeriod (Some (StartDate (Some 2015)))),
          edu_description = None\<rparr>,
         \<lparr>edu_schoolName = Some (lit ''ETH''),
          edu_timePeriod = Some (TimePeriod (Some (StartDate (Some 2019)))),
          edu_description = Some (lit ''MSc'')\<rparr>],
      profile_experience = Some
        [\<lparr>exp_title = Some (lit ''Engineer''), exp_companyName = Some (lit ''Acme''),
          exp_description = Some (lit ''built X'')\<rparr>],
      profile_certifications = None\<rparr>"

definition demo_caps :: "(unit, unit, demo_persona) capabilities" where
  "demo_caps =
     \<lparr>Linkedin = (\<lambda>email pwd. Inr ()),
      get_profile = (\<lambda>api profile_id. Inr demo_profile),
      get_profile_skills = (\<lambda>api profile_id. Inr [\<lparr>skill_name = Some (lit ''Python'')\<rparr>]),
      UserPersona = (\<lambda>n ed ex sk ce. Inr (DemoPersona n ed ex sk ce)),
      scrape_job_posting = (\<lambda>url. Inr ()),
      query = (\<lambda>user job template. Inr [''text'' \<mapsto> lit ''Dear Hiring Manager'']),
      create_editing_interface = (\<lambda>t. t)\<rparr>"

definition demo_secrets :: secrets where
  "demo_secrets =
     [''LINKEDIN_EMAIL'' \<mapsto> lit ''jane@example.com'', ''LINKEDIN_PASSWORD'' \<mapsto> lit ''pw'']"

definition demo_env :: environ where
  "demo_env =
     [''LINKEDIN_EMAIL'' \<mapsto> lit ''env@example.com'',
      ''LINKEDIN_PASSWORD'' \<mapsto> lit ''envpw'']"

text \<open>Both tabs filled in; the job URL is not a LinkedIn posting.\<close>

definition demo_widgets :: widgets where
  "demo_widgets =
     \<lparr>job_url = lit ''https://example.com/jobs/1'',
      profile_url = lit ''https://www.linkedin.com/in/janedoe/'',
      full_name = lit ''Jane Doe'', education_level = lit ''PhD'',
      education_field = lit ''Engineering'',
      work_experience = lit ''Engineer at Acme'', selected_skills = [lit ''Python''],
      selected_certifications = []\<rparr>"

text \<open>Only the manual tab filled in, and the job URL.\<close>

definition manual_widgets :: widgets where
  "manual_widgets =
     \<lparr>job_url = lit ''https://www.linkedin.com/jobs/view/3544765357/'',
      profile_url = [],
      full_name = lit ''Jane Doe'', education_level = lit ''PhD'',
      education_field = lit ''Engineering'',
      work_experience = lit ''Engineer at Acme'', selected_skills = [lit ''Python''],
      selected_certifications = []\<rparr>"

definition fresh_state :: session_state where
  "fresh_state = \<lparr>cover_letter = None, editor_active = False\<rparr>"

section \<open>Properties of the validator\<close>

subsection \<open>The matcher finds exactly the matching prefixes\<close>

lemma strip_prefix_iff: "strip_prefix l s = Some t \<longleftrightarrow> s = l @ t"
  by (induction l s rule: strip_prefix.induct) auto

lemma plus_rest_iff:
  "t \<in> set (plus_rest U k s)
     \<longleftrightarrow> (\<exists>u. u \<noteq> [] \<and> (\<forall>c \<in> set u. in_class U k c) \<and> s = u @ t)"
proof (induction s)
  case Nil
  then show ?case by simp
next
  case (Cons x xs)
  show ?case
  proof
    assume "t \<in> set (plus_rest U k (x # xs))"
    then have x: "in_class U k x" and t: "t \<in> set (plus_rest U k xs) \<or> t = xs"
      by (auto split: if_splits)
    from t show "\<exists>u. u \<noteq> [] \<and> (\<forall>c \<in> set u. in_class U k c) \<and> x # xs = u @ t"
    proof
      assume "t \<in> set (plus_rest U k xs)"
      with Cons.IH obtain u where "u \<noteq> []" "\<forall>c \<in> set u. in_class U k c" "xs = u @ t"
        by blast
      with x have "x # u \<noteq> [] \<and> (\<forall>c \<in> set (x # u). in_class U k c) \<and> x # xs = (x # u) @ t"
        by simp
      then show ?thesis by blast
    next
      assume "t = xs"
      with x have "[x] \<noteq> [] \<and> (\<forall>c \<in> set [x]. in_class U k c) \<and> x # xs = [x] @ t"
        by simp
      then show ?thesis by blast
    qed
  next
    assume "\<exists>u. u \<noteq> [] \<and> (\<forall>c \<in> set u. in_class U k c) \<and> x # xs = u @ t"
    then obtain u where u: "u \<noteq> []" "\<forall>c \<in> set u. in_class U k c" "x # xs = u @ t"
      by blast
    then obtain u' where u': "u = x # u'" by (cases u) auto
    with u have x: "in_class U k x" and xs: "xs = u' @ t"
      and all: "\<forall>c \<in> set u'. in_class U k c"
      by auto
    show "t \<in> set (plus_rest U k (x # xs))"
    proof (cases "u' = []")
      case True
      with x xs show ?thesis by simp
    next
      case False
      with all xs Cons.IH have "t \<in> set (plus_rest U k xs)" by blast
      with x show ?thesis by simp
    qed
  qed
qed

lemma rmatch_iff: "t \<in> set (rmatch U r s) \<longleftrightarrow> (\<exists>u \<in> lang U r. s = u @ t)"
proof (induction r arbitrary: s t)
  case (Chars l)
  have "t \<in> set (rmatch U (Chars l) s) \<longleftrightarrow> strip_prefix (lit l) s = Some t"
    by (cases "strip_prefix (lit l) s") auto
  then show ?case by (simp add: strip_prefix_iff)
next
  case (Opt r)
  then show ?case by auto
next
  case (Plus k)
  show ?case by (auto simp: plus_rest_iff)
next
  case (Cat a b)
  show ?case
  proof
    assume "t \<in> set (rmatch U (Cat a b) s)"
    then obtain m where "m \<in> set (rmatch U a s)" "t \<in> set (rmatch U b m)" by auto
    with Cat.IH obtain u v where "u \<in> lang U a" "s = u @ m" "v \<in> lang U b" "m = v @ t"
      by blast
    then have "u @ v \<in> lang U (Cat a b) \<and> s = (u @ v) @ t" by auto
    then show "\<exists>w \<in> lang U (Cat a b). s = w @ t" by blast
  next
    assume "\<exists>w \<in> lang U (Cat a b). s = w @ t"
    then obtain u v where "u \<in> lang U a" "v \<in> lang U b" "s = u @ v @ t" by auto
    with Cat.IH have "v @ t \<in> set (rmatch U a s)" "t \<in> set (rmatch U b (v @ t))"
      by blast+
    then show "t \<in> set (rmatch U (Cat a b) s)" by auto
  qed
qed

lemma re_match_iff: "re_match U r s \<longleftrightarrow> (\<exists>u t. u \<in> lang U r \<and> s = u @ t)"
proof -
  have "re_match U r s \<longleftrightarrow> (\<exists>t. t \<in> set (rmatch U r s))"
    by (cases "rmatch U r s") (auto simp: re_match_def)
  then show ?thesis by (auto simp: rmatch_iff)
qed

subsection \<open>The job-posting pattern\<close>

lemma lang_Cat_Chars:
  "x \<in> lang U (Cat (Chars l) r) \<longleftrightarrow> (\<exists>v. v \<in> lang U r \<and> x = lit l @ v)"
  by auto

lemma lang_Cat_Opt_Chars:
  "x \<in> lang U (Cat (Opt (Chars l)) r)
     \<longleftrightarrow> (\<exists>a v. (a = [] \<or> a = lit l) \<and> v \<in> lang U r \<and> x = a @ v)"
  by auto

lemma lang_Plus: "x \<in> lang U (Plus k) \<longleftrightarrow> x \<noteq> [] \<and> (\<forall>c \<in> set x. in_class U k c)"
  by simp

lemma job_pattern_lang_parts:
  "u \<in> lang U job_pattern \<longleftrightarrow>
     (\<exists>a b ds. (a = [] \<or> a = lit ''s'') \<and> (b = [] \<or> b = lit ''www.'')
        \<and> ds \<noteq> [] \<and> (\<forall>d \<in> set ds. is_digit U d)
        \<and> u = lit ''http'' @ a @ lit ''://'' @ b @ lit ''linkedin.com/jobs/view/'' @ ds)"
proof -
  have r4: "x \<in> lang U (Cat (Chars ''linkedin.com/jobs/view/'') (Plus Digit)) \<longleftrightarrow>
      (\<exists>ds. ds \<noteq> [] \<and> (\<forall>d \<in> set ds. is_digit U d)
         \<and> x = lit ''linkedin.com/jobs/view/'' @ ds)" for x
    unfolding lang_Cat_Chars lang_Plus in_class.simps by blast
  have r3: "x \<in> lang U (Cat (Opt (Chars ''www.''))
                (Cat (Chars ''linkedin.com/jobs/view/'') (Plus Digit))) \<longleftrightarrow>
      (\<exists>b ds. (b = [] \<or> b = lit ''www.'') \<and> ds \<noteq> [] \<and> (\<forall>d \<in> set ds. is_digit U d)
         \<and> x = b @ lit ''linkedin.com/jobs/view/'' @ ds)" for x
    unfolding lang_Cat_Opt_Chars r4 by blast
  have r2: "x \<in> lang U (Cat (Chars ''://'') (Cat (Opt (Chars ''www.''))
                (Cat (Chars ''linkedin.com/jobs/view/'') (Plus Digit)))) \<longleftrightarrow>
      (\<exists>b ds. (b = [] \<or> b = lit ''www.'') \<and> ds \<noteq> [] \<and> (\<forall>d \<in> set ds. is_digit U d)
         \<and> x = lit ''://'' @ b @ lit ''linkedin.com/jobs/view/'' @ ds)" for x
    unfolding lang_Cat_Chars r3 by blast
  have r1: "x \<in> lang U (Cat (Opt (Chars ''s'')) (Cat (Chars ''://'')
                (Cat (Opt (Chars ''www.''))
                (Cat (Chars ''linkedin.com/jobs/view/'') (Plus Digit))))) \<longleftrightarrow>
      (\<exists>a b ds. (a = [] \<or> a = lit ''s'') \<and> (b = [] \<or> b = lit ''www.'')
         \<and> ds \<noteq> [] \<and> (\<forall>d \<in> set ds. is_digit U d)
         \<and> x = a @ lit ''://'' @ b @ lit ''linkedin.com/jobs/view/'' @ ds)" for x
    unfolding lang_Cat_Opt_Chars r2 by blast
  show ?thesis
    unfolding job_pattern_def lang_Cat_Chars r1 by blast
qed

lemma job_pattern_lang:
  "u \<in> lang U job_pattern \<longleftrightarrow>
     (\<exists>scheme www ds.
        scheme \<in> {lit ''http'', lit ''https''} \<and> www \<in> {[], lit ''www.''}
        \<and> ds \<noteq> [] \<and> (\<forall>d \<in> set ds. is_digit U d)
        \<and> u = scheme @ lit ''://'' @ www @ lit ''linkedin.com/jobs/view/'' @ ds)"
proof
  assume "u \<in> lang U job_pattern"
  then obtain a b ds where a: "a = [] \<or> a = lit ''s''" and b: "b = [] \<or> b = lit ''www.''"
    and ds: "ds \<noteq> []" "\<forall>d \<in> set ds. is_digit U d"
    and u: "u = lit ''http'' @ a @ lit ''://'' @ b @ lit ''linkedin.com/jobs/view/'' @ ds"
    unfolding job_pattern_lang_parts by blast
  from a have "lit ''http'' @ a \<in> {lit ''http'', lit ''https''}" by auto
  moreover from b have "b \<in> {[], lit ''www.''}" by auto
  moreover from u
  have "u = (lit ''http'' @ a) @ lit ''://'' @ b @ lit ''linkedin.com/jobs/view/'' @ ds"
    by simp
  ultimately show "\<exists>scheme www ds.
        scheme \<in> {lit ''http'', lit ''https''} \<and> www \<in> {[], lit ''www.''}
        \<and> ds \<noteq> [] \<and> (\<forall>d \<in> set ds. is_digit U d)
        \<and> u = scheme @ lit ''://'' @ www @ lit ''linkedin.com/jobs/view/'' @ ds"
    using ds by blast
next
  assume "\<exists>scheme www ds.
        scheme \<in> {lit ''http'', lit ''https''} \<and> www \<in> {[], lit ''www.''}
        \<and> ds \<noteq> [] \<and> (\<forall>d \<in> set ds. is_digit U d)
        \<and> u = scheme @ lit ''://'' @ www @ lit ''linkedin.com/jobs/view/'' @ ds"
  then obtain scheme www ds where s: "scheme \<in> {lit ''http'', lit ''https''}"
    and w: "www \<in> {[], lit ''www.''}"
    and ds: "ds \<noteq> []" "\<forall>d \<in> set ds. is_digit U d"
    and u: "u = scheme @ lit ''://'' @ www @ lit ''linkedin.com/jobs/view/'' @ ds"
    by blast
  from s obtain a where a: "a = [] \<or> a = lit ''s''" and sa: "scheme = lit ''http'' @ a"
    by auto
  from w have b: "www = [] \<or> www = lit ''www.''" by auto
  from u sa
  have "u = lit ''http'' @ a @ lit ''://'' @ www @ lit ''linkedin.com/jobs/view/'' @ ds"
    by simp
  with a b ds show "u \<in> lang U job_pattern"
    unfolding job_pattern_lang_parts by blast
qed

text \<open>
  Claim C9. The validator is anchored at the start and nowhere else. It accepts a string
  exactly when some prefix of the string is matched by the posting pattern, whatever
  follows that prefix. Spelled out, it accepts exactly the strings that begin with the
  scheme (\<^verbatim>\<open>http\<close> or \<^verbatim>\<open>https\<close>), \<^verbatim>\<open>://\<close>, an optional \<^verbatim>\<open>www.\<close>,
  \<^verbatim>\<open>linkedin.com/jobs/view/\<close> and one digit. So \<^verbatim>\<open>https://www.linkedin.com/jobs/view/1abc?x=y\<close>
  is accepted, and the empty string is rejected.
\<close>

theorem validate_job_url_prefix_anchored:
  "(validate_linkedin_url U url ''job''
      \<longleftrightarrow> (\<exists>u rest. u \<in> lang U job_pattern \<and> url = u @ rest))
   \<and> (validate_linkedin_url U url ''job''
      \<longleftrightarrow> (\<exists>scheme www d rest.
            scheme \<in> {lit ''http'', lit ''https''} \<and> www \<in> {[], lit ''www.''}
            \<and> is_digit U d
            \<and> url = scheme @ lit ''://'' @ www @ lit ''linkedin.com/jobs/view/'' @ d # rest))
   \<and> validate_linkedin_url U (lit ''https://www.linkedin.com/jobs/view/1abc?x=y'') ''job''
   \<and> \<not> validate_linkedin_url U [] ''job''"
proof -
  have nonempty: "u \<noteq> []" if "u \<in> lang U job_pattern" for u
    using that unfolding job_pattern_lang_parts by auto
  have anchored: "validate_linkedin_url U url ''job''
      \<longleftrightarrow> (\<exists>u rest. u \<in> lang U job_pattern \<and> url = u @ rest)" for url
    using nonempty by (auto simp: validate_linkedin_url_def re_match_iff)
  have shape: "(\<exists>u rest. u \<in> lang U job_pattern \<and> url = u @ rest)
      \<longleftrightarrow> (\<exists>scheme www d rest.
            scheme \<in> {lit ''http'', lit ''https''} \<and> www \<in> {[], lit ''www.''}
            \<and> is_digit U d
            \<and> url = scheme @ lit ''://'' @ www @ lit ''linkedin.com/jobs/view/'' @ d # rest)"
  proof
    assume "\<exists>u rest. u \<in> lang U job_pattern \<and> url = u @ rest"
    then obtain scheme www ds rest where s: "scheme \<in> {lit ''http'', lit ''https''}"
      and w: "www \<in> {[], lit ''www.''}"
      and ds: "ds \<noteq> []" "\<forall>d \<in> set ds. is_digit U d"
      and url: "url = (scheme @ lit ''://'' @ www @ lit ''linkedin.com/jobs/view/'' @ ds) @ rest"
      unfolding job_pattern_lang by blast
    from ds obtain d ds' where "ds = d # ds'" "is_digit U d" by (cases ds) auto
    with url
    have "url = scheme @ lit ''://'' @ www @ lit ''linkedin.com/jobs/view/'' @ d # (ds' @ rest)"
      by simp
    with s w \<open>is_digit U d\<close> show "\<exists>scheme www d rest.
            scheme \<in> {lit ''http'', lit ''https''} \<and> www \<in> {[], lit ''www.''}
            \<and> is_digit U d
            \<and> url = scheme @ lit ''://'' @ www @ lit ''linkedin.com/jobs/view/'' @ d # rest"
      by blast
  next
    assume "\<exists>scheme www d rest.
            scheme \<in> {lit ''http'', lit ''https''} \<and> www \<in> {[], lit ''www.''}
            \<and> is_digit U d
            \<and> url = scheme @ lit ''://'' @ www @ lit ''linkedin.com/jobs/view/'' @ d # rest"
    then obtain scheme www d rest where s: "scheme \<in> {lit ''http'', lit ''https''}"
      and w: "www \<in> {[], lit ''www.''}" and d: "is_digit U d"
      and url: "url = scheme @ lit ''://'' @ www @ lit ''linkedin.com/jobs/view/'' @ d # rest"
      by blast
    from s w d
    have "scheme @ lit ''://'' @ www @ lit ''linkedin.com/jobs/view/'' @ [d]
            \<in> lang U job_pattern"
      unfolding job_pattern_lang by (intro exI [of _ scheme] exI [of _ www] exI [of _ "[d]"]) simp
    moreover from url
    have "url = (scheme @ lit ''://'' @ www @ lit ''linkedin.com/jobs/view/'' @ [d]) @ rest"
      by simp
    ultimately show "\<exists>u rest. u \<in> lang U job_pattern \<and> url = u @ rest" by blast
  qed
  have example:
    "validate_linkedin_url U (lit ''https://www.linkedin.com/jobs/view/1abc?x=y'') ''job''"
    by (simp add: validate_linkedin_url_def re_match_def job_pattern_def is_digit_def)
  have empty: "\<not> validate_linkedin_url U [] ''job''"
    by (simp add: validate_linkedin_url_def)
  from anchored [of url] shape example empty show ?thesis by blast
qed

text \<open>
  Claim C7. The job-posting URL validator returns true for
  \<^verbatim>\<open>https://www.linkedin.com/jobs/view/3544765357/\<close> and false for
  \<^verbatim>\<open>https://example.com/jobs/1\<close> and \<^verbatim>\<open>https://www.linkedin.com/jobs/view/abc\<close>, whatever
  the Unicode tables are.
\<close>

theorem validate_linkedin_url_examples:
  "validate_linkedin_url U (lit ''https://www.linkedin.com/jobs/view/3544765357/'') ''job'' = True
   \<and> validate_linkedin_url U (lit ''https://example.com/jobs/1'') ''job'' = False
   \<and> validate_linkedin_url U (lit ''https://www.linkedin.com/jobs/view/abc'') ''job'' = False"
  by (simp add: validate_linkedin_url_def re_match_def job_pattern_def is_digit_def)

text \<open>
  Claim C9, at concrete inputs, with tables that know the Arabic-Indic digits: a plain-http
  URL without \<^verbatim>\<open>www.\<close> whose posting number is the Arabic-Indic digit three is accepted
  with text after it that is no part of a URL; a URL followed by a query string is
  accepted; a posting URL that does not stand at the start of the string is rejected.
\<close>

theorem validate_job_url_prefix_anchored_witness:
  "is_digit demo_unicode 1635
   \<and> validate_linkedin_url demo_unicode
        (lit ''http://linkedin.com/jobs/view/'' @ 1635 # lit '' and anything else'') ''job''
   \<and> validate_linkedin_url demo_unicode
        (lit ''https://www.linkedin.com/jobs/view/42?tracking=1'') ''job''
   \<and> \<not> validate_linkedin_url demo_unicode
        (lit ''see https://www.linkedin.com/jobs/view/42'') ''job''"
proof -
  have d: "is_digit demo_unicode 1635" "is_digit demo_unicode 52"
    by (simp_all add: is_digit_def demo_unicode_def)
  have "\<exists>scheme www d rest.
      scheme \<in> {lit ''http'', lit ''https''} \<and> www \<in> {[], lit ''www.''}
      \<and> is_digit demo_unicode d
      \<and> lit ''http://linkedin.com/jobs/view/'' @ 1635 # lit '' and anything else''
          = scheme @ lit ''://'' @ www @ lit ''linkedin.com/jobs/view/'' @ d # rest"
    using d(1)
    by (intro exI [of _ "lit ''http''"] exI [of _ "[]"] exI [of _ 1635]
          exI [of _ "lit '' and anything else''"]) simp
  with validate_job_url_prefix_anchored
    [of demo_unicode "lit ''http://linkedin.com/jobs/view/'' @ 1635 # lit '' and anything else''"]
  have arabic: "validate_linkedin_url demo_unicode
        (lit ''http://linkedin.com/jobs/view/'' @ 1635 # lit '' and anything else'') ''job''"
    by blast
  have "\<exists>scheme www d rest.
      scheme \<in> {lit ''http'', lit ''https''} \<and> www \<in> {[], lit ''www.''}
      \<and> is_digit demo_unicode d
      \<and> lit ''https://www.linkedin.com/jobs/view/42?tracking=1''
          = scheme @ lit ''://'' @ www @ lit ''linkedin.com/jobs/view/'' @ d # rest"
    using d(2)
    by (intro exI [of _ "lit ''https''"] exI [of _ "lit ''www.''"] exI [of _ 52]
          exI [of _ "lit ''2?tracking=1''"]) simp
  with validate_job_url_prefix_anchored
    [of demo_unicode "lit ''https://www.linkedin.com/jobs/view/42?tracking=1''"]
  have tracked: "validate_linkedin_url demo_unicode
        (lit ''https://www.linkedin.com/jobs/view/42?tracking=1'') ''job''"
    by blast
  have elsewhere: "\<not> validate_linkedin_url demo_unicode
        (lit ''see https://www.linkedin.com/jobs/view/42'') ''job''"
    by (simp add: validate_linkedin_url_def re_match_def job_pattern_def)
  from d(1) arabic tracked elsewhere show ?thesis by blast
qed

section \<open>Auxiliary facts\<close>

lemma traverse_list_all2:
  "traverse f xs = Inr ys \<Longrightarrow> list_all2 (\<lambda>x y. f x = Inr y) xs ys"
  by (induction xs arbitrary: ys) (auto split: sum.splits)

text \<open>The calls of the fetch start with the login and are calls of the profile API only.\<close>

lemma fetch_profile_events:
  "fetch_profile caps email pwd pid = (evs, r) \<Longrightarrow>
     evs \<noteq> [] \<and> hd evs = Login email pwd \<and>
     (\<forall>ev \<in> set evs. \<not> presents_letter ev \<and> (\<forall>url. ev \<noteq> ScrapeJobPosting url)
        \<and> (\<forall>s. ev \<noteq> StInfo s) \<and> (\<forall>s. ev \<noteq> StError s))"
  by (auto simp: fetch_profile_def split: sum.splits prod.splits)

lemma scrape_profile_quiet:
  "scrape_profile caps secrets env pid = (evs, r) \<Longrightarrow> ev \<in> set evs \<Longrightarrow>
     \<not> presents_letter ev \<and> (\<forall>url. ev \<noteq> ScrapeJobPosting url)
     \<and> (\<forall>s. ev \<noteq> StInfo s) \<and> (\<forall>s. ev \<noteq> StError s)"
  by (auto simp: scrape_profile_def split: sum.splits prod.splits
      dest!: fetch_profile_events)

lemma persona_stage_quiet:
  "persona_stage caps secrets env w = (evs, r) \<Longrightarrow> ev \<in> set evs \<Longrightarrow>
     \<not> presents_letter ev \<and> (\<forall>url. ev \<noteq> ScrapeJobPosting url) \<and> (\<forall>s. ev \<noteq> StInfo s)"
  by (auto simp: persona_stage_def tab1_active_def split: if_splits sum.splits prod.splits
      dest: scrape_profile_quiet)

lemma on_exception_quiet:
  "ev \<in> set (on_exception e) \<Longrightarrow>
     \<not> presents_letter ev \<and> (\<forall>url. ev \<noteq> ScrapeJobPosting url)"
  by (auto simp: on_exception_def split: if_splits)

text \<open>The manual branch is never taken: the handler never finds name or experience missing.\<close>

lemma persona_stage_is_linkedin:
  "persona_stage caps secrets env w =
     (if job_url w = [] then ([StError (lit ''Please enter a job posting URL'')], Return)
      else if profile_url w = []
      then ([StError (lit ''Please enter your LinkedIn profile URL'')], Return)
      else
        (case scrape_profile caps secrets env
                (last (split_on 47 (rstrip 47 (profile_url w)))) of
           (evs, Inl e) \<Rightarrow> (evs, Raised e)
         | (evs, Inr user) \<Rightarrow> (evs, Built user)))"
  by (simp add: persona_stage_def tab1_active_def)

lemma scrape_profile_wraps:
  "resolve_credentials secrets env = Inr (email, pwd) \<Longrightarrow>
   scrape_profile caps secrets env pid =
     (fst (fetch_profile caps email pwd pid),
      case snd (fetch_profile caps email pwd pid) of
        Inl e \<Rightarrow> Inl (Exception (lit ''Failed to scrape LinkedIn profile: '' @ err_str e))
      | Inr user \<Rightarrow> Inr user)"
  by (auto simp: scrape_profile_def split: sum.splits prod.splits)

lemma resolve_credentials_error:
  "resolve_credentials secrets env = Inl e \<Longrightarrow>
     e = ValueError (lit ''LinkedIn credentials not found in secrets or environment variables'')"
  by (auto simp: resolve_credentials_def split: option.splits if_splits)

subsection \<open>The sample run\<close>

lemma year_strings: "str_int 2015 = lit ''2015''" "str_int 2019 = lit ''2019''"
  by code_simp+

lemmas demo_defs =
  demo_caps_def demo_secrets_def demo_env_def demo_widgets_def manual_widgets_def
  fresh_state_def demo_profile_def

lemmas run_defs =
  generate_def persona_stage_def tab1_active_def scrape_profile_def resolve_credentials_def
  fetch_profile_def normalize_profile_def format_education_def format_experience_def
  format_certification_def subscript_def get_default_def rstrip_def
  manual_input_persona_def on_exception_def

lemma demo_run:
  "generate demo_caps demo_secrets Map.empty demo_widgets fresh_state =
   (\<lparr>cover_letter = Some [''text'' \<mapsto> lit ''Dear Hiring Manager''], editor_active = True\<rparr>,
    [Login (lit ''jane@example.com'') (lit ''pw''), GetProfile (lit ''janedoe''),
     GetProfileSkills (lit ''janedoe''),
     NewPersona (lit ''Jane Doe'')
       (StrList [lit ''MIT (2015) - No description available'', lit ''ETH (2019) - MSc''])
       (StrList [lit ''Engineer at Acme - built X'']) [lit ''Python''] [],
     ScrapeJobPosting (lit ''https://example.com/jobs/1''),
     Query (DemoPersona (lit ''Jane Doe'')
              (StrList [lit ''MIT (2015) - No description available'', lit ''ETH (2019) - MSc''])
              (StrList [lit ''Engineer at Acme - built X'']) [lit ''Python''] [])
       () (lit ''src/prompts/cover_letter.txt''),
     SuccessMessage, ShowLetter (lit ''Dear Hiring Manager''),
     DownloadButton (lit ''Dear Hiring Manager''), Sleep, Rerun])"
  by (simp add: run_defs demo_defs year_strings)

section \<open>Generation\<close>

text \<open>
  Claim C1. Generation is atomic. If persona construction does not yield a persona, or
  the posting fetch fails, or the backend call fails, the run leaves the session state
  (the stored cover letter and the editor flag) as it was and puts no letter on the page.
  The state changes only when all three stages have succeeded, and then it holds the
  complete result of the backend call with the editor flag set.
\<close>

theorem generate_atomic:
  "(((\<forall>user. snd (persona_stage caps secrets env w) \<noteq> Built user)
      \<or> (\<exists>e. scrape_job_posting caps (job_url w) = Inl e)
      \<or> (\<exists>user job e. snd (persona_stage caps secrets env w) = Built user
            \<and> scrape_job_posting caps (job_url w) = Inr job
            \<and> query caps user job (lit ''src/prompts/cover_letter.txt'') = Inl e))
     \<longrightarrow> fst (generate caps secrets env w st) = st
         \<and> (\<forall>ev \<in> set (snd (generate caps secrets env w st)). \<not> presents_letter ev))
   \<and> (fst (generate caps secrets env w st) \<noteq> st
     \<longrightarrow> (\<exists>user job response. snd (persona_stage caps secrets env w) = Built user
            \<and> scrape_job_posting caps (job_url w) = Inr job
            \<and> query caps user job (lit ''src/prompts/cover_letter.txt'') = Inr response
            \<and> fst (generate caps secrets env w st)
                = \<lparr>cover_letter = Some response, editor_active = True\<rparr>))"
proof (cases "persona_stage caps secrets env w")
  case (Pair evs r)
  note quiet = persona_stage_quiet [OF Pair]
  show ?thesis
  proof (cases r)
    case Return
    with Pair quiet show ?thesis by (auto simp: generate_def)
  next
    case (Raised e)
    with Pair quiet show ?thesis
      by (auto simp: generate_def dest: on_exception_quiet)
  next
    case (Built user)
    show ?thesis
    proof (cases "scrape_job_posting caps (job_url w)")
      case (Inl e)
      with Pair Built quiet show ?thesis
        by (auto simp: generate_def dest: on_exception_quiet)
    next
      case (Inr job)
      show ?thesis
      proof (cases "query caps user job (lit ''src/prompts/cover_letter.txt'')")
        case (Inl e)
        with Pair Built Inr quiet show ?thesis
          by (auto simp: generate_def dest: on_exception_quiet)
      next
        case stored: (Inr response)
        with Pair Built Inr show ?thesis
          by (cases st) (auto simp: generate_def)
      qed
    qed
  qed
qed

text \<open>
  Claim C1, at concrete inputs: with a backend that answers every query with a timeout the
  fresh state stays fresh and no letter is shown; with the sample backend the state
  changes, and it then holds the backend's result.
\<close>

theorem generate_atomic_witness:
  "(\<exists>user job e.
       snd (persona_stage
              (demo_caps\<lparr>query := \<lambda>user job template.
                                      Inl (PyError ''TimeoutError'' (lit ''timed out''))\<rparr>)
              demo_secrets Map.empty demo_widgets) = Built user
     \<and> scrape_job_posting
          (demo_caps\<lparr>query := \<lambda>user job template.
                                  Inl (PyError ''TimeoutError'' (lit ''timed out''))\<rparr>)
          (job_url demo_widgets) = Inr job
     \<and> query
          (demo_caps\<lparr>query := \<lambda>user job template.
                                  Inl (PyError ''TimeoutError'' (lit ''timed out''))\<rparr>)
          user job (lit ''src/prompts/cover_letter.txt'') = Inl e)
   \<and> fst (generate
            (demo_caps\<lparr>query := \<lambda>user job template.
                                    Inl (PyError ''TimeoutError'' (lit ''timed out''))\<rparr>)
            demo_secrets Map.empty demo_widgets fresh_state) = fresh_state
   \<and> filter presents_letter
        (snd (generate
               (demo_caps\<lparr>query := \<lambda>user job template.
                                       Inl (PyError ''TimeoutError'' (lit ''timed out''))\<rparr>)
               demo_secrets Map.empty demo_widgets fresh_state)) = []
   \<and> fst (generate demo_caps demo_secrets Map.empty demo_widgets fresh_state) \<noteq> fresh_state
   \<and> (\<exists>user job response.
         snd (persona_stage demo_caps demo_secrets Map.empty demo_widgets) = Built user
       \<and> scrape_job_posting demo_caps (job_url demo_widgets) = Inr job
       \<and> query demo_caps user job (lit ''src/prompts/cover_letter.txt'') = Inr response
       \<and> fst (generate demo_caps demo_secrets Map.empty demo_widgets fresh_state)
           = \<lparr>cover_letter = Some response, editor_active = True\<rparr>)"
proof -
  let ?caps = "demo_caps\<lparr>query := \<lambda>user job template.
                                      Inl (PyError ''TimeoutError'' (lit ''timed out''))\<rparr>"
  have fails: "\<exists>user job e.
       snd (persona_stage ?caps demo_secrets Map.empty demo_widgets) = Built user
     \<and> scrape_job_posting ?caps (job_url demo_widgets) = Inr job
     \<and> query ?caps user job (lit ''src/prompts/cover_letter.txt'') = Inl e"
    by (simp add: run_defs demo_defs year_strings)
  have changed:
    "fst (generate demo_caps demo_secrets Map.empty demo_widgets fresh_state) \<noteq> fresh_state"
    by (simp add: demo_run) (simp add: fresh_state_def)
  from fails generate_atomic [of ?caps demo_secrets Map.empty demo_widgets fresh_state]
  have kept: "fst (generate ?caps demo_secrets Map.empty demo_widgets fresh_state) = fresh_state"
    and quiet: "\<forall>ev \<in> set (snd (generate ?caps demo_secrets Map.empty demo_widgets fresh_state)).
                  \<not> presents_letter ev"
    by blast+
  from quiet
  have none: "filter presents_letter
                (snd (generate ?caps demo_secrets Map.empty demo_widgets fresh_state)) = []"
    by (simp add: filter_empty_conv)
  from changed generate_atomic [of demo_caps demo_secrets Map.empty demo_widgets fresh_state]
  have stored: "\<exists>user job response.
         snd (persona_stage demo_caps demo_secrets Map.empty demo_widgets) = Built user
       \<and> scrape_job_posting demo_caps (job_url demo_widgets) = Inr job
       \<and> query demo_caps user job (lit ''src/prompts/cover_letter.txt'') = Inr response
       \<and> fst (generate demo_caps demo_secrets Map.empty demo_widgets fresh_state)
           = \<lparr>cover_letter = Some response, editor_active = True\<rparr>"
    by blast
  from fails kept none changed stored show ?thesis by blast
qed

section \<open>The posting URL and the posting fetch\<close>

text \<open>
  Claim C2, as stated, fails. With the sample inputs the job URL is
  \<^verbatim>\<open>https://example.com/jobs/1\<close>, which the validator rejects; the generate handler
  still calls the posting fetch with it, and the run ends with a stored letter, not with an
  error.
\<close>

theorem invalid_url_still_fetched:
  "(\<forall>U. \<not> validate_linkedin_url U (job_url demo_widgets) ''job'')
   \<and> ScrapeJobPosting (job_url demo_widgets)
       \<in> set (snd (generate demo_caps demo_secrets Map.empty demo_widgets fresh_state))
   \<and> cover_letter (fst (generate demo_caps demo_secrets Map.empty demo_widgets fresh_state))
       = Some [''text'' \<mapsto> lit ''Dear Hiring Manager'']"
  by (simp add: demo_run)
     (simp add: demo_widgets_def validate_linkedin_url_def re_match_def job_pattern_def)

text \<open>
  Claim C2, amended. A non-empty job URL that the validator rejects makes the form show
  the message \<^verbatim>\<open>Please enter a valid LinkedIn job posting URL\<close>, and nothing more. The
  generate handler does not consult the validator: it calls the posting fetch exactly when
  persona construction has yielded a persona, and then with the URL as it was entered.
\<close>

theorem posting_fetch_ignores_validation:
  "(url \<noteq> [] \<and> \<not> validate_linkedin_url U url ''job''
      \<longrightarrow> (job_url_feedback U url :: ('job, 'persona) event list)
            = [StError (lit ''Please enter a valid LinkedIn job posting URL'')])
   \<and> (ScrapeJobPosting u \<in> set (snd (generate caps secrets env w st))
        \<longleftrightarrow> u = job_url w \<and> (\<exists>user. snd (persona_stage caps secrets env w) = Built user))"
proof (intro conjI)
  show "url \<noteq> [] \<and> \<not> validate_linkedin_url U url ''job''
      \<longrightarrow> (job_url_feedback U url :: ('job, 'persona) event list)
            = [StError (lit ''Please enter a valid LinkedIn job posting URL'')]"
    by (simp add: job_url_feedback_def)
next
  obtain evs r where ps: "persona_stage caps secrets env w = (evs, r)"
    by (cases "persona_stage caps secrets env w")
  note quiet = persona_stage_quiet [OF ps]
  show "ScrapeJobPosting u \<in> set (snd (generate caps secrets env w st))
        \<longleftrightarrow> u = job_url w \<and> (\<exists>user. snd (persona_stage caps secrets env w) = Built user)"
  proof (cases r)
    case Return
    with ps quiet show ?thesis by (auto simp: generate_def)
  next
    case (Raised e)
    with ps quiet show ?thesis by (auto simp: generate_def dest: on_exception_quiet)
  next
    case (Built user)
    with ps quiet show ?thesis
      by (auto simp: generate_def split: sum.splits option.splits
          dest: on_exception_quiet)
  qed
qed

text \<open>
  Claim C2, amended, at the sample inputs: the rejected URL gets the message of the form,
  and the handler fetches it.
\<close>

theorem posting_fetch_ignores_validation_witness:
  "lit ''https://example.com/jobs/1'' \<noteq> []
   \<and> \<not> validate_linkedin_url demo_unicode (lit ''https://example.com/jobs/1'') ''job''
   \<and> (job_url_feedback demo_unicode (lit ''https://example.com/jobs/1'')
        :: (unit, demo_persona) event list)
        = [StError (lit ''Please enter a valid LinkedIn job posting URL'')]
   \<and> (\<exists>user. snd (persona_stage demo_caps demo_secrets Map.empty demo_widgets) = Built user)
   \<and> ScrapeJobPosting (lit ''https://example.com/jobs/1'')
        \<in> set (snd (generate demo_caps demo_secrets Map.empty demo_widgets fresh_state))"
proof -
  have rejected: "lit ''https://example.com/jobs/1'' \<noteq> []
      \<and> \<not> validate_linkedin_url demo_unicode (lit ''https://example.com/jobs/1'') ''job''"
    by (simp add: validate_linkedin_url_def re_match_def job_pattern_def)
  have built:
    "\<exists>user. snd (persona_stage demo_caps demo_secrets Map.empty demo_widgets) = Built user"
    by (simp add: run_defs demo_defs year_strings)
  have url: "job_url demo_widgets = lit ''https://example.com/jobs/1''"
    by (simp add: demo_widgets_def)
  note fact = posting_fetch_ignores_validation
      [of "lit ''https://example.com/jobs/1''" demo_unicode "lit ''https://example.com/jobs/1''"
          demo_caps demo_secrets Map.empty demo_widgets fresh_state,
       where ?'job = unit and ?'persona = demo_persona]
  from fact rejected
  have shown: "(job_url_feedback demo_unicode (lit ''https://example.com/jobs/1'')
        :: (unit, demo_persona) event list)
        = [StError (lit ''Please enter a valid LinkedIn job posting URL'')]"
    by blast
  from fact built url
  have fetched: "ScrapeJobPosting (lit ''https://example.com/jobs/1'')
        \<in> set (snd (generate demo_caps demo_secrets Map.empty demo_widgets fresh_state))"
    by (simp del: lit.simps)
  from rejected shown built fetched show ?thesis by blast
qed

section \<open>Building the persona\<close>

text \<open>
  No run hands the constructor a bare string as education, and no run reports a missing
  name or experience: the manual branch is never taken.
\<close>

lemma manual_branch_unreachable:
  "NewPersona n (Str ed) ex sk ce \<notin> set (snd (generate caps secrets env w st))
   \<and> StError (lit ''Please fill in all required fields'')
       \<notin> set (fst (persona_stage caps secrets env w))"
proof -
  have fetch: "NewPersona n (Str ed) ex sk ce \<notin> set (fst (fetch_profile caps a b pid))
      \<and> (\<forall>m. StError m \<notin> set (fst (fetch_profile caps a b pid)))" for a b pid
    by (auto simp: fetch_profile_def split: sum.splits prod.splits)
  have scrape: "NewPersona n (Str ed) ex sk ce \<notin> set (fst (scrape_profile caps secrets env pid))
      \<and> (\<forall>m. StError m \<notin> set (fst (scrape_profile caps secrets env pid)))" for pid
  proof (cases "resolve_credentials secrets env")
    case (Inl e)
    then show ?thesis by (simp add: scrape_profile_def)
  next
    case (Inr c)
    then obtain a b where "resolve_credentials secrets env = Inr (a, b)" by (cases c) auto
    with fetch [of a b pid] show ?thesis by (simp add: scrape_profile_wraps)
  qed
  have stage: "NewPersona n (Str ed) ex sk ce \<notin> set (fst (persona_stage caps secrets env w))
      \<and> StError (lit ''Please fill in all required fields'')
          \<notin> set (fst (persona_stage caps secrets env w))"
    using scrape [of "last (split_on 47 (rstrip 47 (profile_url w)))"]
    by (auto simp: persona_stage_is_linkedin split: prod.splits sum.splits)
  have handler: "NewPersona n (Str ed) ex sk ce \<notin> set (on_exception e)" for e
    by (simp add: on_exception_def)
  obtain evs r where ps: "persona_stage caps secrets env w = (evs, r)"
    by (cases "persona_stage caps secrets env w")
  with stage handler
  have "NewPersona n (Str ed) ex sk ce \<notin> set (snd (generate caps secrets env w st))"
    by (cases r) (auto simp: generate_def split: sum.splits option.splits)
  with stage show ?thesis by blast
qed

text \<open>
  Claim C3 is not met by the program. With the manual tab filled in and no profile URL,
  the handler asks for the profile URL and constructs no persona, since the test of line
  293 sends every run down the scraping path. The manual branch itself, lines 303-307,
  hands the constructor the synthesized string as it is, not a list holding it, whereas
  the scraping path hands over a list with one string per education entry.
\<close>

theorem manual_education_never_built:
  "generate demo_caps demo_secrets demo_env manual_widgets fresh_state
     = (fresh_state, [StError (lit ''Please enter your LinkedIn profile URL'')])
   \<and> manual_input_persona demo_caps manual_widgets
     = ([NewPersona (lit ''Jane Doe'') (Str (lit ''PhD in Engineering''))
           (Str (lit ''Engineer at Acme'')) [lit ''Python''] []],
        Built (DemoPersona (lit ''Jane Doe'') (Str (lit ''PhD in Engineering''))
           (Str (lit ''Engineer at Acme'')) [lit ''Python''] []))
   \<and> Str (lit ''PhD in Engineering'') \<noteq> StrList [lit ''PhD in Engineering'']
   \<and> NewPersona (lit ''Jane Doe'')
        (StrList [lit ''MIT (2015) - No description available'', lit ''ETH (2019) - MSc''])
        (StrList [lit ''Engineer at Acme - built X'']) [lit ''Python''] []
       \<in> set (snd (generate demo_caps demo_secrets Map.empty demo_widgets fresh_state))"
proof -
  have "generate demo_caps demo_secrets demo_env manual_widgets fresh_state
     = (fresh_state, [StError (lit ''Please enter your LinkedIn profile URL'')])"
    by (simp add: generate_def persona_stage_is_linkedin manual_widgets_def)
  moreover have "manual_input_persona demo_caps manual_widgets
     = ([NewPersona (lit ''Jane Doe'') (Str (lit ''PhD in Engineering''))
           (Str (lit ''Engineer at Acme'')) [lit ''Python''] []],
        Built (DemoPersona (lit ''Jane Doe'') (Str (lit ''PhD in Engineering''))
           (Str (lit ''Engineer at Acme'')) [lit ''Python''] []))"
    by (simp add: manual_input_persona_def manual_widgets_def demo_caps_def Let_def)
  moreover have "NewPersona (lit ''Jane Doe'')
        (StrList [lit ''MIT (2015) - No description available'', lit ''ETH (2019) - MSc''])
        (StrList [lit ''Engineer at Acme - built X'']) [lit ''Python''] []
       \<in> set (snd (generate demo_caps demo_secrets Map.empty demo_widgets fresh_state))"
    by (simp add: demo_run)
  ultimately show ?thesis by simp
qed

text \<open>
  Claim C5 is not met by the program. With a name and an experience typed into the manual
  tab and nothing else filled in, the handler asks for a job posting URL and constructs no
  persona.
\<close>

theorem manual_input_builds_no_persona:
  "full_name (manual_widgets\<lparr>job_url := []\<rparr>) = lit ''Jane Doe''
   \<and> work_experience (manual_widgets\<lparr>job_url := []\<rparr>) = lit ''Engineer at Acme''
   \<and> generate demo_caps demo_secrets demo_env (manual_widgets\<lparr>job_url := []\<rparr>) fresh_state
     = (fresh_state, [StError (lit ''Please enter a job posting URL'')])"
  by (simp add: generate_def persona_stage_is_linkedin manual_widgets_def)

text \<open>
  Claim C6 is not met by the program. With the name and the experience of the manual tab
  left empty, and the two URLs of the first tab filled in, the handler reports no missing
  field: it scrapes the profile, generates the letter and stores it.
\<close>

theorem empty_manual_fields_not_reported:
  "generate demo_caps demo_secrets Map.empty
     (demo_widgets\<lparr>full_name := [], work_experience := []\<rparr>) fresh_state
   = (\<lparr>cover_letter = Some [''text'' \<mapsto> lit ''Dear Hiring Manager''], editor_active = True\<rparr>,
      [Login (lit ''jane@example.com'') (lit ''pw''), GetProfile (lit ''janedoe''),
       GetProfileSkills (lit ''janedoe''),
       NewPersona (lit ''Jane Doe'')
         (StrList [lit ''MIT (2015) - No description available'', lit ''ETH (2019) - MSc''])
         (StrList [lit ''Engineer at Acme - built X'']) [lit ''Python''] [],
       ScrapeJobPosting (lit ''https://example.com/jobs/1''),
       Query (DemoPersona (lit ''Jane Doe'')
                (StrList [lit ''MIT (2015) - No description available'', lit ''ETH (2019) - MSc''])
                (StrList [lit ''Engineer at Acme - built X'']) [lit ''Python''] [])
         () (lit ''src/prompts/cover_letter.txt''),
       SuccessMessage, ShowLetter (lit ''Dear Hiring Manager''),
       DownloadButton (lit ''Dear Hiring Manager''), Sleep, Rerun])"
  by (simp add: run_defs demo_defs year_strings)

section \<open>Credentials and the errors of scraping\<close>

text \<open>
  Claim C8 is not met by the program. With the e-mail address in the secrets only and the
  password in the environment only, no source supplies both fields, yet no credentials
  error is raised: the client logs in with the address of the one and the password of the
  other. The same mixing happens when the environment holds both. With an empty address
  as the only secret, the credentials error is raised although the environment supplies
  both fields. With two empty secrets the empty strings are the credentials, and the
  environment is not consulted.
\<close>

theorem credentials_mix_sources:
  "resolve_credentials [''LINKEDIN_EMAIL'' \<mapsto> lit ''jane@example.com'']
       [''LINKEDIN_PASSWORD'' \<mapsto> lit ''envpw'']
     = Inr (lit ''jane@example.com'', lit ''envpw'')
   \<and> fst (scrape_profile demo_caps [''LINKEDIN_EMAIL'' \<mapsto> lit ''jane@example.com'']
            [''LINKEDIN_PASSWORD'' \<mapsto> lit ''envpw''] (lit ''janedoe''))
     = [Login (lit ''jane@example.com'') (lit ''envpw''), GetProfile (lit ''janedoe''),
        GetProfileSkills (lit ''janedoe''),
        NewPersona (lit ''Jane Doe'')
          (StrList [lit ''MIT (2015) - No description available'', lit ''ETH (2019) - MSc''])
          (StrList [lit ''Engineer at Acme - built X'']) [lit ''Python''] []]
   \<and> resolve_credentials [''LINKEDIN_EMAIL'' \<mapsto> lit ''jane@example.com''] demo_env
     = Inr (lit ''jane@example.com'', lit ''envpw'')
   \<and> scrape_profile demo_caps [''LINKEDIN_EMAIL'' \<mapsto> []] demo_env (lit ''janedoe'')
     = ([], Inl (ValueError
          (lit ''LinkedIn credentials not found in secrets or environment variables'')))
   \<and> resolve_credentials [''LINKEDIN_EMAIL'' \<mapsto> [], ''LINKEDIN_PASSWORD'' \<mapsto> []] demo_env
     = Inr ([], [])"
  by (simp add: scrape_profile_def resolve_credentials_def fetch_profile_def
      normalize_profile_def format_education_def format_experience_def
      format_certification_def subscript_def get_default_def demo_defs year_strings
      map_add_def)

text \<open>
  Claim C10, as stated, fails in its last part. The suggestion to use manual input is
  shown for every error whose text contains \<^verbatim>\<open>credentials not found\<close>. Here the
  credentials are supplied, the login fails with that text, the error is wrapped as a
  scraping failure, and the suggestion is shown all the same.
\<close>

theorem suggestion_on_fetch_failure:
  "resolve_credentials demo_secrets Map.empty = Inr (lit ''jane@example.com'', lit ''pw'')
   \<and> generate
        (demo_caps\<lparr>Linkedin := \<lambda>email pwd. Inl (Exception (lit ''credentials not found''))\<rparr>)
        demo_secrets Map.empty demo_widgets fresh_state
     = (fresh_state,
        [Login (lit ''jane@example.com'') (lit ''pw''),
         StError (lit
           ''An error occurred: Failed to scrape LinkedIn profile: credentials not found''),
         StInfo (lit
           ''Please use the manual input method or run the app locally for LinkedIn integration.'')])"
  by (simp add: run_defs demo_defs Exception_def)

text \<open>
  Claim C10, amended. Every error raised while the profile is fetched and normalised
  leaves \<open>scrape_profile\<close> wrapped with the prefix \<^verbatim>\<open>Failed to scrape LinkedIn profile: \<close>.
  The missing-credentials error is raised before any call and does not carry that prefix;
  the handler answers it with the error message and the suggestion to use manual input.
  The persona stage raises exactly what \<open>scrape_profile\<close> raises. Whatever a failing stage
  raises (scraping, posting fetch or backend call), the handler shows it after
  \<^verbatim>\<open>An error occurred: \<close>, and it shows the suggestion exactly when the text of that
  error contains \<^verbatim>\<open>credentials not found\<close>; in no other run is the suggestion shown.
\<close>

theorem scrape_errors_distinguished:
  "(resolve_credentials secrets env = Inr (email, pwd)
      \<and> snd (fetch_profile caps email pwd profile_id) = Inl e
     \<longrightarrow> snd (scrape_profile caps secrets env profile_id)
           = Inl (Exception (lit ''Failed to scrape LinkedIn profile: '' @ err_str e)))
   \<and> (resolve_credentials secrets env = Inl e
     \<longrightarrow> scrape_profile caps secrets env profile_id = ([], Inl e)
         \<and> strip_prefix (lit ''Failed to scrape LinkedIn profile: '') (err_str e) = None
         \<and> (job_url w \<noteq> [] \<and> profile_url w \<noteq> []
             \<longrightarrow> generate caps secrets env w st
                   = (st, [StError (lit ''An error occurred: '' @ err_str e),
                           StInfo (lit
   ''Please use the manual input method or run the app locally for LinkedIn integration.'')])))
   \<and> (snd (persona_stage caps secrets env w) = Raised e
     \<longleftrightarrow> job_url w \<noteq> [] \<and> profile_url w \<noteq> []
         \<and> snd (scrape_profile caps secrets env
                  (last (split_on 47 (rstrip 47 (profile_url w))))) = Inl e)
   \<and> ((snd (persona_stage caps secrets env w) = Raised e
        \<or> (\<exists>user. snd (persona_stage caps secrets env w) = Built user
             \<and> (scrape_job_posting caps (job_url w) = Inl e
                \<or> (\<exists>job. scrape_job_posting caps (job_url w) = Inr job
                     \<and> query caps user job (lit ''src/prompts/cover_letter.txt'') = Inl e))))
     \<longrightarrow> StError (lit ''An error occurred: '' @ err_str e)
           \<in> set (snd (generate caps secrets env w st)))
   \<and> (StInfo s \<in> set (snd (generate caps secrets env w st))
     \<longleftrightarrow> s = lit
   ''Please use the manual input method or run the app locally for LinkedIn integration.''
         \<and> (\<exists>x. contains (lit ''credentials not found'') (err_str x)
              \<and> (snd (persona_stage caps secrets env w) = Raised x
                 \<or> (\<exists>user. snd (persona_stage caps secrets env w) = Built user
                      \<and> (scrape_job_posting caps (job_url w) = Inl x
                         \<or> (\<exists>job. scrape_job_posting caps (job_url w) = Inr job
                              \<and> query caps user job (lit ''src/prompts/cover_letter.txt'')
                                  = Inl x))))))"
proof -
  let ?suggestion = "lit
   ''Please use the manual input method or run the app locally for LinkedIn integration.''"
  let ?tmpl = "lit ''src/prompts/cover_letter.txt''"
  have wrap: "resolve_credentials secrets env = Inr (email, pwd)
      \<and> snd (fetch_profile caps email pwd profile_id) = Inl e
     \<longrightarrow> snd (scrape_profile caps secrets env profile_id)
           = Inl (Exception (lit ''Failed to scrape LinkedIn profile: '' @ err_str e))"
    by (simp add: scrape_profile_wraps)
  have missing: "resolve_credentials secrets env = Inl e
     \<longrightarrow> scrape_profile caps secrets env profile_id = ([], Inl e)
         \<and> strip_prefix (lit ''Failed to scrape LinkedIn profile: '') (err_str e) = None
         \<and> (job_url w \<noteq> [] \<and> profile_url w \<noteq> []
             \<longrightarrow> generate caps secrets env w st
                   = (st, [StError (lit ''An error occurred: '' @ err_str e),
                           StInfo ?suggestion]))"
  proof
    assume r: "resolve_credentials secrets env = Inl e"
    then have e: "e = ValueError
        (lit ''LinkedIn credentials not found in secrets or environment variables'')"
      by (rule resolve_credentials_error)
    from r have sp: "scrape_profile caps secrets env pid = ([], Inl e)" for pid
      by (simp add: scrape_profile_def)
    have pre: "strip_prefix (lit ''Failed to scrape LinkedIn profile: '') (err_str e) = None"
      by (simp add: e ValueError_def)
    have has_text: "contains (lit ''credentials not found'') (err_str e)"
      by (simp add: e ValueError_def)
    have run: "job_url w \<noteq> [] \<and> profile_url w \<noteq> []
             \<longrightarrow> generate caps secrets env w st
                   = (st, [StError (lit ''An error occurred: '' @ err_str e),
                           StInfo ?suggestion])"
      using has_text by (simp add: generate_def persona_stage_is_linkedin sp on_exception_def
          del: lit.simps contains.simps)
    from sp pre run show "scrape_profile caps secrets env profile_id = ([], Inl e)
         \<and> strip_prefix (lit ''Failed to scrape LinkedIn profile: '') (err_str e) = None
         \<and> (job_url w \<noteq> [] \<and> profile_url w \<noteq> []
             \<longrightarrow> generate caps secrets env w st
                   = (st, [StError (lit ''An error occurred: '' @ err_str e),
                           StInfo ?suggestion]))"
      by blast
  qed
  have raised: "snd (persona_stage caps secrets env w) = Raised e
     \<longleftrightarrow> job_url w \<noteq> [] \<and> profile_url w \<noteq> []
         \<and> snd (scrape_profile caps secrets env
                  (last (split_on 47 (rstrip 47 (profile_url w))))) = Inl e"
    by (auto simp: persona_stage_is_linkedin split: prod.splits sum.splits)
  obtain evs r where ps: "persona_stage caps secrets env w = (evs, r)"
    by (cases "persona_stage caps secrets env w")
  note quiet = persona_stage_quiet [OF ps]
  have no_text: "\<not> contains (lit ''credentials not found'') (err_str (KeyError ''text''))"
    by (simp add: KeyError_def)
  have shown: "(snd (persona_stage caps secrets env w) = Raised e
        \<or> (\<exists>user. snd (persona_stage caps secrets env w) = Built user
             \<and> (scrape_job_posting caps (job_url w) = Inl e
                \<or> (\<exists>job. scrape_job_posting caps (job_url w) = Inr job
                     \<and> query caps user job ?tmpl = Inl e))))
     \<longrightarrow> StError (lit ''An error occurred: '' @ err_str e)
           \<in> set (snd (generate caps secrets env w st))"
    using ps
    by (cases r)
       (auto simp: generate_def on_exception_def simp del: lit.simps contains.simps
          split: sum.splits)
  have suggested: "StInfo s \<in> set (snd (generate caps secrets env w st))
     \<longleftrightarrow> s = ?suggestion
         \<and> (\<exists>x. contains (lit ''credentials not found'') (err_str x)
              \<and> (snd (persona_stage caps secrets env w) = Raised x
                 \<or> (\<exists>user. snd (persona_stage caps secrets env w) = Built user
                      \<and> (scrape_job_posting caps (job_url w) = Inl x
                         \<or> (\<exists>job. scrape_job_posting caps (job_url w) = Inr job
                              \<and> query caps user job ?tmpl = Inl x)))))"
  proof (cases r)
    case Return
    with ps quiet show ?thesis by (auto simp: generate_def)
  next
    case (Raised x)
    with ps quiet show ?thesis
      by (auto simp: generate_def on_exception_def simp del: lit.simps contains.simps)
  next
    case (Built user)
    show ?thesis
    proof (cases "scrape_job_posting caps (job_url w)")
      case (Inl x)
      with ps Built quiet show ?thesis
        by (auto simp: generate_def on_exception_def simp del: lit.simps contains.simps)
    next
      case (Inr job)
      show ?thesis
      proof (cases "query caps user job ?tmpl")
        case (Inl x)
        with ps Built Inr quiet show ?thesis
          by (auto simp: generate_def on_exception_def simp del: lit.simps contains.simps)
      next
        case answered: (Inr response)
        with ps Built Inr quiet no_text show ?thesis
          by (auto simp: generate_def on_exception_def simp del: lit.simps contains.simps
              split: option.splits)
      qed
    qed
  qed
  from wrap missing raised shown suggested show ?thesis by blast
qed

text \<open>
  Claim C10, amended, at concrete inputs. Without credentials anywhere the scrape ends in
  the unwrapped credentials error and the handler shows the error and the suggestion. With
  credentials and a profile request that fails, the error leaves wrapped. A posting fetch
  that fails with \<^verbatim>\<open>API credentials not found\<close> gets the error message and the suggestion; a
  backend that times out gets the error message and no suggestion.
\<close>

theorem scrape_errors_distinguished_witness:
  "scrape_profile demo_caps Map.empty Map.empty (lit ''janedoe'')
     = ([], Inl (ValueError
          (lit ''LinkedIn credentials not found in secrets or environment variables'')))
   \<and> generate demo_caps Map.empty Map.empty demo_widgets fresh_state
     = (fresh_state,
        [StError (lit
   ''An error occurred: LinkedIn credentials not found in secrets or environment variables''),
         StInfo (lit
   ''Please use the manual input method or run the app locally for LinkedIn integration.'')])
   \<and> snd (scrape_profile
            (demo_caps\<lparr>get_profile := \<lambda>api profile_id. Inl (Exception (lit ''request failed''))\<rparr>)
            demo_secrets Map.empty (lit ''janedoe''))
     = Inl (Exception (lit ''Failed to scrape LinkedIn profile: request failed''))
   \<and> StError (lit ''An error occurred: API credentials not found'')
       \<in> set (snd (generate
            (demo_caps\<lparr>scrape_job_posting :=
                          \<lambda>url. Inl (Exception (lit ''API credentials not found''))\<rparr>)
            demo_secrets Map.empty demo_widgets fresh_state))
   \<and> StInfo (lit
   ''Please use the manual input method or run the app locally for LinkedIn integration.'')
       \<in> set (snd (generate
            (demo_caps\<lparr>scrape_job_posting :=
                          \<lambda>url. Inl (Exception (lit ''API credentials not found''))\<rparr>)
            demo_secrets Map.empty demo_widgets fresh_state))
   \<and> StError (lit ''An error occurred: timed out'')
       \<in> set (snd (generate
            (demo_caps\<lparr>query := \<lambda>user job template.
                                    Inl (PyError ''TimeoutError'' (lit ''timed out''))\<rparr>)
            demo_secrets Map.empty demo_widgets fresh_state))
   \<and> StInfo (lit
   ''Please use the manual input method or run the app locally for LinkedIn integration.'')
       \<notin> set (snd (generate
            (demo_caps\<lparr>query := \<lambda>user job template.
                                    Inl (PyError ''TimeoutError'' (lit ''timed out''))\<rparr>)
            demo_secrets Map.empty demo_widgets fresh_state))"
proof -
  let ?missing = "ValueError
    (lit ''LinkedIn credentials not found in secrets or environment variables'')"
  let ?suggestion = "lit
   ''Please use the manual input method or run the app locally for LinkedIn integration.''"
  let ?tmpl = "lit ''src/prompts/cover_letter.txt''"
  let ?caps_g = "demo_caps\<lparr>get_profile :=
    \<lambda>api profile_id. Inl (Exception (lit ''request failed''))\<rparr>"
  let ?caps_p = "demo_caps\<lparr>scrape_job_posting :=
    \<lambda>url. Inl (Exception (lit ''API credentials not found''))\<rparr>"
  let ?caps_q = "demo_caps\<lparr>query :=
    \<lambda>user job template. Inl (PyError ''TimeoutError'' (lit ''timed out''))\<rparr>"
  let ?user = "DemoPersona (lit ''Jane Doe'')
      (StrList [lit ''MIT (2015) - No description available'', lit ''ETH (2019) - MSc''])
      (StrList [lit ''Engineer at Acme - built X'']) [lit ''Python''] []"
  have none: "resolve_credentials Map.empty Map.empty = Inl ?missing"
    by (simp add: resolve_credentials_def)
  have urls: "job_url demo_widgets \<noteq> [] \<and> profile_url demo_widgets \<noteq> []"
    by (simp add: demo_widgets_def)
  have msg: "lit ''An error occurred: '' @ err_str ?missing = lit
   ''An error occurred: LinkedIn credentials not found in secrets or environment variables''"
    by (simp add: ValueError_def)
  from none urls
    scrape_errors_distinguished
      [where secrets = Map.empty and env = Map.empty and e = ?missing and caps = demo_caps
         and profile_id = "lit ''janedoe''" and w = demo_widgets and st = fresh_state]
  have a: "scrape_profile demo_caps Map.empty Map.empty (lit ''janedoe'') = ([], Inl ?missing)"
    and b0: "generate demo_caps Map.empty Map.empty demo_widgets fresh_state
      = (fresh_state, [StError (lit ''An error occurred: '' @ err_str ?missing),
                       StInfo ?suggestion])"
    by blast+
  from b0 have b: "generate demo_caps Map.empty Map.empty demo_widgets fresh_state
      = (fresh_state, [StError (lit
   ''An error occurred: LinkedIn credentials not found in secrets or environment variables''),
                       StInfo ?suggestion])"
    unfolding msg .
  have some: "resolve_credentials demo_secrets Map.empty
      = Inr (lit ''jane@example.com'', lit ''pw'')"
    by (simp add: resolve_credentials_def demo_secrets_def)
  have fails: "snd (fetch_profile ?caps_g (lit ''jane@example.com'') (lit ''pw'') (lit ''janedoe''))
      = Inl (Exception (lit ''request failed''))"
    by (simp add: fetch_profile_def demo_caps_def)
  have str: "lit ''Failed to scrape LinkedIn profile: ''
       @ err_str (Exception (lit ''request failed''))
      = lit ''Failed to scrape LinkedIn profile: request failed''"
    by (simp add: Exception_def)
  from some fails
    scrape_errors_distinguished
      [where secrets = demo_secrets and env = Map.empty and email = "lit ''jane@example.com''"
         and pwd = "lit ''pw''" and caps = ?caps_g and profile_id = "lit ''janedoe''"
         and e = "Exception (lit ''request failed'')"]
  have "snd (scrape_profile ?caps_g demo_secrets Map.empty (lit ''janedoe''))
     = Inl (Exception (lit ''Failed to scrape LinkedIn profile: ''
                         @ err_str (Exception (lit ''request failed''))))"
    by blast
  then have c: "snd (scrape_profile ?caps_g demo_secrets Map.empty (lit ''janedoe''))
     = Inl (Exception (lit ''Failed to scrape LinkedIn profile: request failed''))"
    unfolding str .
  have built_p: "snd (persona_stage ?caps_p demo_secrets Map.empty demo_widgets) = Built ?user"
    and built_q: "snd (persona_stage ?caps_q demo_secrets Map.empty demo_widgets) = Built ?user"
    by (simp_all add: run_defs demo_defs year_strings)
  have posting: "scrape_job_posting ?caps_p (job_url demo_widgets)
      = Inl (Exception (lit ''API credentials not found''))"
    by simp
  have has_text: "contains (lit ''credentials not found'')
      (err_str (Exception (lit ''API credentials not found'')))"
    by (simp add: Exception_def)
  have msg_p: "lit ''An error occurred: '' @ err_str (Exception (lit ''API credentials not found''))
      = lit ''An error occurred: API credentials not found''"
    by (simp add: Exception_def)
  note at_p = scrape_errors_distinguished
      [where caps = ?caps_p and secrets = demo_secrets and env = Map.empty and w = demo_widgets
         and st = fresh_state and e = "Exception (lit ''API credentials not found'')"
         and s = ?suggestion]
  from at_p built_p posting
  have "StError (lit ''An error occurred: ''
                   @ err_str (Exception (lit ''API credentials not found'')))
      \<in> set (snd (generate ?caps_p demo_secrets Map.empty demo_widgets fresh_state))"
    by blast
  then have d: "StError (lit ''An error occurred: API credentials not found'')
      \<in> set (snd (generate ?caps_p demo_secrets Map.empty demo_widgets fresh_state))"
    unfolding msg_p .
  from at_p built_p posting has_text
  have e: "StInfo ?suggestion
      \<in> set (snd (generate ?caps_p demo_secrets Map.empty demo_widgets fresh_state))"
    by blast
  have job_q: "scrape_job_posting ?caps_q (job_url demo_widgets) = Inr ()"
    by (simp add: demo_caps_def)
  have query_q: "query ?caps_q user job ?tmpl = Inl (PyError ''TimeoutError'' (lit ''timed out''))"
    for user job
    by simp
  have no_text: "\<not> contains (lit ''credentials not found'')
      (err_str (PyError ''TimeoutError'' (lit ''timed out'')))"
    by simp
  have msg_q: "lit ''An error occurred: '' @ err_str (PyError ''TimeoutError'' (lit ''timed out''))
      = lit ''An error occurred: timed out''"
    by simp
  note at_q = scrape_errors_distinguished
      [where caps = ?caps_q and secrets = demo_secrets and env = Map.empty and w = demo_widgets
         and st = fresh_state and e = "PyError ''TimeoutError'' (lit ''timed out'')"
         and s = ?suggestion]
  from at_q built_q job_q query_q
  have "StError (lit ''An error occurred: ''
                   @ err_str (PyError ''TimeoutError'' (lit ''timed out'')))
      \<in> set (snd (generate ?caps_q demo_secrets Map.empty demo_widgets fresh_state))"
    by blast
  then have f: "StError (lit ''An error occurred: timed out'')
      \<in> set (snd (generate ?caps_q demo_secrets Map.empty demo_widgets fresh_state))"
    unfolding msg_q .
  have only: "\<not> (\<exists>x. contains (lit ''credentials not found'') (err_str x)
              \<and> (snd (persona_stage ?caps_q demo_secrets Map.empty demo_widgets) = Raised x
                 \<or> (\<exists>user. snd (persona_stage ?caps_q demo_secrets Map.empty demo_widgets)
                              = Built user
                      \<and> (scrape_job_posting ?caps_q (job_url demo_widgets) = Inl x
                         \<or> (\<exists>job. scrape_job_posting ?caps_q (job_url demo_widgets) = Inr job
                              \<and> query ?caps_q user job ?tmpl = Inl x)))))"
    unfolding built_q job_q query_q using no_text by auto
  from at_q only
  have g: "StInfo ?suggestion
      \<notin> set (snd (generate ?caps_q demo_secrets Map.empty demo_widgets fresh_state))"
    by blast
  from a b c d e f g show ?thesis by blast
qed

section \<open>Editing the letter\<close>

text \<open>
  Claim C4, as stated, fails: the session keeps no history. Whatever one reads off the
  session state as its history, it cannot grow by the prior text at every edit that
  changes the text, because an edit to \<^verbatim>\<open>c\<close> of a session holding \<^verbatim>\<open>a\<close> and of a
  session holding \<^verbatim>\<open>b\<close> end in the same state.
\<close>

theorem editor_keeps_no_history:
  "\<not> (\<exists>history :: session_state \<Rightarrow> pystr list.
        \<forall>(caps :: (unit, unit, demo_persona) capabilities) st letter t.
          cover_letter st = Some letter \<and> letter ''text'' = Some t
          \<and> create_editing_interface caps t \<noteq> t
          \<longrightarrow> (\<exists>st' evs. editor_tab caps st = Inr (st', evs)
                 \<and> history st' = history st @ [t]))"
proof
  assume "\<exists>history :: session_state \<Rightarrow> pystr list.
        \<forall>(caps :: (unit, unit, demo_persona) capabilities) st letter t.
          cover_letter st = Some letter \<and> letter ''text'' = Some t
          \<and> create_editing_interface caps t \<noteq> t
          \<longrightarrow> (\<exists>st' evs. editor_tab caps st = Inr (st', evs)
                 \<and> history st' = history st @ [t])"
  then obtain history :: "session_state \<Rightarrow> pystr list" where
    grows: "\<And>(caps :: (unit, unit, demo_persona) capabilities) st letter t.
          cover_letter st = Some letter \<Longrightarrow> letter ''text'' = Some t
          \<Longrightarrow> create_editing_interface caps t \<noteq> t
          \<Longrightarrow> \<exists>st' evs. editor_tab caps st = Inr (st', evs)
                 \<and> history st' = history st @ [t]"
    by blast
  let ?caps = "demo_caps\<lparr>create_editing_interface := \<lambda>t. lit ''c''\<rparr>"
  let ?a = "\<lparr>cover_letter = Some [''text'' \<mapsto> lit ''a''], editor_active = True\<rparr>"
  let ?b = "\<lparr>cover_letter = Some [''text'' \<mapsto> lit ''b''], editor_active = True\<rparr>"
  let ?c = "\<lparr>cover_letter = Some [''text'' \<mapsto> lit ''c''], editor_active = True\<rparr>"
  have ea: "editor_tab ?caps ?a
      = Inr (?c, [UpdatedMessage, ShowLetter (lit ''c''), DownloadButton (lit ''c'')])"
    and eb: "editor_tab ?caps ?b
      = Inr (?c, [UpdatedMessage, ShowLetter (lit ''c''), DownloadButton (lit ''c'')])"
    by (simp_all add: editor_tab_def Let_def)
  from grows [of ?a "[''text'' \<mapsto> lit ''a'']" "lit ''a''" ?caps] ea
  have "history ?c = history ?a @ [lit ''a'']" by auto
  moreover from grows [of ?b "[''text'' \<mapsto> lit ''b'']" "lit ''b''" ?caps] eb
  have "history ?c = history ?b @ [lit ''b'']" by auto
  ultimately show False by simp
qed

text \<open>
  Claim C4, amended. For every stored letter, an edit that hands back the current text
  leaves the session state unchanged, and an edit that hands back a different text
  replaces the stored text by it and changes nothing else of the state; no history of
  prior texts is kept.
\<close>

theorem editor_replaces_text:
  "cover_letter st = Some letter \<Longrightarrow> letter ''text'' = Some t \<Longrightarrow>
     (create_editing_interface caps t = t \<longrightarrow> (\<exists>evs. editor_tab caps st = Inr (st, evs)))
   \<and> (create_editing_interface caps t \<noteq> t \<longrightarrow>
        (\<exists>evs. editor_tab caps st =
           Inr (st\<lparr>cover_letter :=
                     Some (letter(''text'' \<mapsto> create_editing_interface caps t))\<rparr>, evs)))"
  by (simp add: editor_tab_def Let_def)

text \<open>
  Claim C4, amended, at a session holding \<^verbatim>\<open>a\<close>: handing back \<^verbatim>\<open>a\<close> changes nothing,
  handing back \<^verbatim>\<open>c\<close> leaves a session holding \<^verbatim>\<open>c\<close>.
\<close>

theorem editor_replaces_text_witness:
  "cover_letter \<lparr>cover_letter = Some [''text'' \<mapsto> lit ''a''], editor_active = True\<rparr>
     = Some [''text'' \<mapsto> lit ''a'']
   \<and> [''text'' \<mapsto> lit ''a''] ''text'' = Some (lit ''a'')
   \<and> create_editing_interface demo_caps (lit ''a'') = lit ''a''
   \<and> (\<exists>evs. editor_tab demo_caps
               \<lparr>cover_letter = Some [''text'' \<mapsto> lit ''a''], editor_active = True\<rparr>
        = Inr (\<lparr>cover_letter = Some [''text'' \<mapsto> lit ''a''], editor_active = True\<rparr>, evs))
   \<and> create_editing_interface (demo_caps\<lparr>create_editing_interface := \<lambda>t. lit ''c''\<rparr>)
        (lit ''a'') \<noteq> lit ''a''
   \<and> (\<exists>evs. editor_tab (demo_caps\<lparr>create_editing_interface := \<lambda>t. lit ''c''\<rparr>)
               \<lparr>cover_letter = Some [''text'' \<mapsto> lit ''a''], editor_active = True\<rparr>
        = Inr (\<lparr>cover_letter = Some [''text'' \<mapsto> lit ''c''], editor_active = True\<rparr>, evs))"
proof -
  let ?a = "\<lparr>cover_letter = Some [''text'' \<mapsto> lit ''a''], editor_active = True\<rparr>"
  let ?caps = "demo_caps\<lparr>create_editing_interface := \<lambda>t. lit ''c''\<rparr>"
  have c: "cover_letter ?a = Some [''text'' \<mapsto> lit ''a'']"
    and t: "[''text'' \<mapsto> lit ''a''] ''text'' = Some (lit ''a'')"
    by simp_all
  have same: "create_editing_interface demo_caps (lit ''a'') = lit ''a''"
    by (simp add: demo_caps_def)
  have diff: "create_editing_interface ?caps (lit ''a'') \<noteq> lit ''a''" by simp
  have upd: "create_editing_interface ?caps (lit ''a'') = lit ''c''" by simp
  from editor_replaces_text [OF c t, of demo_caps] same
  have 1: "\<exists>evs. editor_tab demo_caps ?a = Inr (?a, evs)" by blast
  from editor_replaces_text [OF c t, of ?caps] diff
  have "\<exists>evs. editor_tab ?caps ?a =
           Inr (?a\<lparr>cover_letter :=
                     Some ([''text'' \<mapsto> lit ''a'']
                             (''text'' \<mapsto> create_editing_interface ?caps (lit ''a'')))\<rparr>, evs)"
    by blast
  then have 2: "\<exists>evs. editor_tab ?caps ?a
        = Inr (\<lparr>cover_letter = Some [''text'' \<mapsto> lit ''c''], editor_active = True\<rparr>, evs)"
    by (simp add: upd)
  from c t same diff 1 2 show ?thesis by blast
qed

end
